theory Spec2Isabelle
  imports Main
begin

section \<open>The persisted store\<close>

text \<open>
  The server keeps everything in one SQLite database (\<^verbatim>\<open>fire_tracker.db\<close>), reached through
  the global handle \<^verbatim>\<open>db\<close>. The store below holds the catalogue of existing tables and the
  rows of the tables that the schema migrations, the seeding of reference data and the
  authentication endpoint read or write. The tables whose rows none of these functions touch
  (incidents, attendees, events, ...) are present in the catalogue only. The surrogate
  \<^verbatim>\<open>id INTEGER PRIMARY KEY AUTOINCREMENT\<close> columns are left out: no function here reads them.
\<close>

datatype sqlval = SqlNull | SqlInt int | SqlText string

text \<open>
  A row of \<^verbatim>\<open>firefighters\<close>. \<open>profile\<close> holds the columns of the CREATE TABLE statement of
  \<^verbatim>\<open>migration_v1\<close> other than the key; the remaining fields are the columns that
  \<^verbatim>\<open>migration_v2\<close> adds, \<open>None\<close> standing for NULL (and for a column the table does not have
  yet). The INTEGER columns hold integers: nothing in the repository stores anything else.
\<close>

record firefighter =
  badge :: string
  profile :: "(string \<times> sqlval) list"
  pin_hash :: "string option"
  pin_reset_at :: "string option"
  pin_reset_by :: "string option"
  account_locked :: "int option"
  failed_attempts :: "int option"
  last_failed_attempt :: "string option"

record station =
  st_name :: string
  st_address :: "string option"
  st_phone :: "string option"
  st_created_at :: string

record station_account =
  sa_station_name :: string
  sa_password :: string
  sa_created_at :: string

record activity_category =
  ac_category_name :: string
  ac_description :: "string option"
  ac_requires_approval :: int
  ac_default_hours :: int
  ac_created_at :: string

record auth_log =
  al_badge :: "string option"
  al_attempt_time :: string
  al_success :: int
  al_ip_address :: "string option"
  al_user_agent :: "string option"
  al_failure_reason :: "string option"

text \<open>
  \<open>tables\<close> is the catalogue (\<^verbatim>\<open>sqlite_master\<close>): the names of the tables that exist.
  \<open>ff_added_columns\<close> lists the columns that \<^verbatim>\<open>firefighters\<close> has beyond those of its
  CREATE TABLE statement. The other fields are the rows of a table each, in insertion order;
  \<open>db_version\<close> holds the values of the one column of the version table.
\<close>

record store =
  tables :: "string list"
  ff_added_columns :: "string list"
  firefighters :: "firefighter list"
  stations :: "station list"
  station_accounts :: "station_account list"
  activity_categories :: "activity_category list"
  auth_logs :: "auth_log list"
  db_version :: "int list"

text \<open>
  Every statement sent to the database can fail in the storage layer (disk, lock, corruption).
  A \<open>faults\<close> oracle says, for each place of the source that sends a statement, whether the
  storage layer fails there; a statement also fails by its own logic (missing table, missing
  or duplicate column).
\<close>

datatype site =
    GetVersionMaster | GetVersionSelect
  | Create string | AddColumn string
  | SetVersionDelete | SetVersionInsert
  | Seed string string
  | AuthSelect | AuthResetUpdate | AuthFailedUpdate | AuthLogInsert

type_synonym faults = "site \<Rightarrow> bool"

datatype db_error =
    Fault site
  | NoSuchTable string
  | NoSuchColumn string
  | DuplicateColumn string

definition no_faults :: faults where
  "no_faults = (\<lambda>_. False)"

section \<open>JavaScript truthiness, as the endpoint uses it\<close>

text \<open>\<^verbatim>\<open>!badge\<close>, \<^verbatim>\<open>!pin\<close>: an absent value and the empty string are falsy.\<close>

definition falsy_str :: "string option \<Rightarrow> bool" where
  "falsy_str v = (case v of None \<Rightarrow> True | Some t \<Rightarrow> t = [])"

text \<open>\<^verbatim>\<open>if (firefighter.account_locked)\<close>: NULL and 0 are falsy.\<close>

definition truthy_int :: "int option \<Rightarrow> bool" where
  "truthy_int v = (case v of None \<Rightarrow> False | Some n \<Rightarrow> n \<noteq> 0)"

text \<open>\<^verbatim>\<open>firefighter.failed_attempts || 0\<close>\<close>

definition or_zero :: "int option \<Rightarrow> int" where
  "or_zero v = (if truthy_int v then the v else 0)"

section \<open>JavaScript numbers\<close>

text \<open>
  The driver hands an INTEGER of the database to JavaScript as a number, a double: the
  integer itself up to magnitude \<open>2^53\<close>, and beyond it the nearest integer that a mantissa
  of 53 bits can hold, the even mantissa on a tie. Sums of numbers are rounded the same way.
\<close>

fun bitlen :: "nat \<Rightarrow> nat" where
  "bitlen n = (if n = 0 then 0 else Suc (bitlen (n div 2)))"

definition js_number :: "int \<Rightarrow> int" where
  "js_number m =
     (let a = nat \<bar>m\<bar>;
          q = 2 ^ (bitlen a - 53);
          d = a div q;
          r = a mod q;
          up = (q < 2 * r \<or> (2 * r = q \<and> odd d))
      in sgn m * int ((if up then d + 1 else d) * q))"

definition js_value :: "sqlval \<Rightarrow> sqlval" where
  "js_value v = (case v of SqlInt n \<Rightarrow> SqlInt (js_number n) | _ \<Rightarrow> v)"

section \<open>The authentication endpoint\<close>

record request =
  req_badge :: "string option"
  req_pin :: "string option"
  req_ip :: "string option"
  req_user_agent :: "string option"

datatype body =
    ErrorBody string
  | SuccessBody "(string \<times> sqlval) list"

record response =
  status :: nat
  body :: body

text \<open>
  What a call did besides answering: the statements that the database was given to execute
  and the calls of the hash comparison, in order.
\<close>

datatype action = Stmt site | Compare

record auth_result =
  response :: "response option"
  db :: store
  unhandled :: "db_error list"
  actions :: "action list"

text \<open>
  \<^verbatim>\<open>logAuthAttempt\<close>: one INSERT into \<^verbatim>\<open>auth_logs\<close>. Its callback is \<^verbatim>\<open>() => resolve()\<close>: the
  promise resolves whether or not the INSERT failed, and the error is dropped.
  \<^verbatim>\<open>attempt_time\<close> takes the column default CURRENT_TIMESTAMP, here \<open>ts\<close>.
\<close>

definition logAuthAttempt ::
  "faults \<Rightarrow> string \<Rightarrow> string option \<Rightarrow> bool \<Rightarrow> string option \<Rightarrow> string option \<Rightarrow>
   string option \<Rightarrow> store \<Rightarrow> store" where
  "logAuthAttempt F ts b success ipAddress userAgent failureReason s =
     (if F AuthLogInsert \<or> ''auth_logs'' \<notin> set (tables s) then s
      else s\<lparr>auth_logs := auth_logs s @
             [\<lparr>al_badge = b, al_attempt_time = ts, al_success = (if success then 1 else 0),
               al_ip_address = ipAddress, al_user_agent = userAgent,
               al_failure_reason = failureReason\<rparr>]\<rparr>)"

text \<open>\<^verbatim>\<open>db.get("SELECT * FROM firefighters WHERE badge = ?", [badge], ...)\<close>: the first match.\<close>

definition select_firefighter :: "faults \<Rightarrow> store \<Rightarrow> string \<Rightarrow> db_error + firefighter option" where
  "select_firefighter F s b =
     (if F AuthSelect then Inl (Fault AuthSelect)
      else if ''firefighters'' \<notin> set (tables s) then Inl (NoSuchTable ''firefighters'')
      else Inr (find (\<lambda>r. badge r = b) (firefighters s)))"

text \<open>
  \<^verbatim>\<open>UPDATE firefighters SET ... WHERE badge = ?\<close>: \<open>cols\<close> are the columns the statement
  assigns, \<open>f\<close> the assignment.
\<close>

definition update_firefighter ::
  "faults \<Rightarrow> site \<Rightarrow> string list \<Rightarrow> (firefighter \<Rightarrow> firefighter) \<Rightarrow> string \<Rightarrow> store \<Rightarrow>
   db_error + store" where
  "update_firefighter F st cols f b s =
     (if F st then Inl (Fault st)
      else if ''firefighters'' \<notin> set (tables s) then Inl (NoSuchTable ''firefighters'')
      else case find (\<lambda>c. c \<notin> set (ff_added_columns s)) cols of
             Some c \<Rightarrow> Inl (NoSuchColumn c)
           | None \<Rightarrow> Inr (s\<lparr>firefighters :=
                          map (\<lambda>r. if badge r = b then f r else r) (firefighters s)\<rparr>))"

text \<open>
  A \<^verbatim>\<open>db.run\<close> without a callback: when the statement fails, the driver emits the error as
  an \<^verbatim>\<open>error\<close> event on the statement. Nothing in the repository listens for that event or
  for an uncaught exception, so the process ends there: the call is left without a response
  and nothing that the handler does after the statement takes effect. The error is kept in
  \<open>unhandled\<close>.
\<close>

text \<open>
  The object that \<^verbatim>\<open>SELECT *\<close> yields for a row: one property per column of the table, an
  integer as the number JavaScript reads.
\<close>

definition added_value :: "firefighter \<Rightarrow> string \<Rightarrow> sqlval" where
  "added_value r c =
     (if c = ''pin_hash'' then (case pin_hash r of None \<Rightarrow> SqlNull | Some t \<Rightarrow> SqlText t)
      else if c = ''pin_reset_at'' then (case pin_reset_at r of None \<Rightarrow> SqlNull | Some t \<Rightarrow> SqlText t)
      else if c = ''pin_reset_by'' then (case pin_reset_by r of None \<Rightarrow> SqlNull | Some t \<Rightarrow> SqlText t)
      else if c = ''account_locked'' then (case account_locked r of None \<Rightarrow> SqlNull | Some n \<Rightarrow> SqlInt n)
      else if c = ''failed_attempts'' then (case failed_attempts r of None \<Rightarrow> SqlNull | Some n \<Rightarrow> SqlInt n)
      else if c = ''last_failed_attempt'' then
        (case last_failed_attempt r of None \<Rightarrow> SqlNull | Some t \<Rightarrow> SqlText t)
      else SqlNull)"

definition row_object :: "store \<Rightarrow> firefighter \<Rightarrow> (string \<times> sqlval) list" where
  "row_object s r =
     map (\<lambda>(c, v). (c, js_value v))
       ((''badge'', SqlText (badge r)) # profile r @
        map (\<lambda>c. (c, added_value r c)) (ff_added_columns s))"

text \<open>\<^verbatim>\<open>const { pin_hash, ...safeFirefighter } = firefighter;\<close>\<close>

definition safeFirefighter :: "(string \<times> sqlval) list \<Rightarrow> (string \<times> sqlval) list" where
  "safeFirefighter obj = filter (\<lambda>(k, v). k \<noteq> ''pin_hash'') obj"

text \<open>
  The handler of \<^verbatim>\<open>app.post('/api/firefighters/authenticate', ...)\<close> follows, in four
  definitions: the two branches on the result of the PIN comparison, the callback of
  \<^verbatim>\<open>db.get\<close>, and the handler itself. The rate limiter in front of the handler is not part
  of it: the model is of the calls that reach the handler, each run to its end before the
  next. \<open>now\<close> is \<^verbatim>\<open>new Date().toISOString()\<close>, \<open>ts\<close> the CURRENT_TIMESTAMP of the database.
\<close>

text \<open>The branch \<^verbatim>\<open>if (isPinValid) { ... }\<close>.\<close>

definition pin_valid :: "faults \<Rightarrow> string \<Rightarrow> request \<Rightarrow> string \<Rightarrow> firefighter \<Rightarrow> store \<Rightarrow> auth_result" where
  "pin_valid F ts req b firefighter s =
     (case update_firefighter F AuthResetUpdate [''failed_attempts'', ''last_failed_attempt'']
             (\<lambda>r. r\<lparr>failed_attempts := Some 0, last_failed_attempt := None\<rparr>) b s of
        Inl e \<Rightarrow>
          \<lparr>response = None, db = s, unhandled = [e],
           actions = [Stmt AuthSelect, Compare, Stmt AuthResetUpdate]\<rparr>
      | Inr s1 \<Rightarrow>
          \<lparr>response = Some \<lparr>status = 200,
                             body = SuccessBody (safeFirefighter (row_object s firefighter))\<rparr>,
           db = logAuthAttempt F ts (Some b) True (req_ip req) (req_user_agent req) None s1,
           unhandled = [],
           actions = [Stmt AuthSelect, Compare, Stmt AuthResetUpdate, Stmt AuthLogInsert]\<rparr>)"

text \<open>The branch \<^verbatim>\<open>else { // Increment failed attempts ... }\<close>.\<close>

definition pin_invalid ::
  "faults \<Rightarrow> string \<Rightarrow> string \<Rightarrow> request \<Rightarrow> string \<Rightarrow> firefighter \<Rightarrow> store \<Rightarrow> auth_result" where
  "pin_invalid F now ts req b firefighter s =
     (let failedAttempts =
            js_number (or_zero (map_option js_number (failed_attempts firefighter)) + 1);
          shouldLock = (5 \<le> failedAttempts)
      in case update_firefighter F AuthFailedUpdate
                [''failed_attempts'', ''last_failed_attempt'', ''account_locked'']
                (\<lambda>r. r\<lparr>failed_attempts := Some failedAttempts,
                       last_failed_attempt := Some now,
                       account_locked := Some (if shouldLock then 1 else 0)\<rparr>) b s of
           Inl e \<Rightarrow>
             \<lparr>response = None, db = s, unhandled = [e],
              actions = [Stmt AuthSelect, Compare, Stmt AuthFailedUpdate]\<rparr>
         | Inr s1 \<Rightarrow>
             \<lparr>response = Some
                (if shouldLock then
                   \<lparr>status = 423, body = ErrorBody
                     ''Account locked due to multiple failed attempts. Contact administrator.''\<rparr>
                 else \<lparr>status = 401, body = ErrorBody ''Invalid PIN''\<rparr>),
              db = logAuthAttempt F ts (Some b) False (req_ip req) (req_user_agent req)
                     (Some ''Invalid PIN'') s1,
              unhandled = [],
              actions = [Stmt AuthSelect, Compare, Stmt AuthFailedUpdate, Stmt AuthLogInsert]\<rparr>)"

text \<open>
  What the callback of \<^verbatim>\<open>db.get\<close> does with the row it is given. \<open>cmp\<close> is
  \<^verbatim>\<open>bcrypt.compare\<close>, a library outside the repository: \<open>Some v\<close> when its promise resolves to
  \<open>v\<close>, \<open>None\<close> when it rejects. The comparison is awaited inside this callback, which the
  \<^verbatim>\<open>try\<close> of the handler does not cover: a rejection leaves the call without a response.
\<close>

definition with_row ::
  "faults \<Rightarrow> (string \<Rightarrow> string option \<Rightarrow> bool option) \<Rightarrow> string \<Rightarrow> string \<Rightarrow> request \<Rightarrow>
   string \<Rightarrow> string \<Rightarrow> firefighter option \<Rightarrow> store \<Rightarrow> auth_result" where
  "with_row F cmp now ts req b pin row s =
     (case row of
        None \<Rightarrow>
          \<lparr>response = Some \<lparr>status = 401, body = ErrorBody ''Invalid badge number''\<rparr>,
           db = logAuthAttempt F ts (Some b) False (req_ip req) (req_user_agent req)
                  (Some ''Badge not found'') s,
           unhandled = [], actions = [Stmt AuthSelect, Stmt AuthLogInsert]\<rparr>
      | Some firefighter \<Rightarrow>
          (if truthy_int (account_locked firefighter) then
             \<lparr>response = Some \<lparr>status = 423,
                                body = ErrorBody ''Account is locked. Contact administrator.''\<rparr>,
              db = logAuthAttempt F ts (Some b) False (req_ip req) (req_user_agent req)
                     (Some ''Account locked'') s,
              unhandled = [], actions = [Stmt AuthSelect, Stmt AuthLogInsert]\<rparr>
           else
             (case cmp pin (pin_hash firefighter) of
                None \<Rightarrow>
                  \<lparr>response = None, db = s, unhandled = [],
                   actions = [Stmt AuthSelect, Compare]\<rparr>
              | Some isPinValid \<Rightarrow>
                  (if isPinValid then pin_valid F ts req b firefighter s
                   else pin_invalid F now ts req b firefighter s))))"

text \<open>
  The handler: validation of the input, then the lookup. An error of the lookup is answered
  with 500 at once, before anything is logged.
\<close>

definition authenticate ::
  "faults \<Rightarrow> (string \<Rightarrow> string option \<Rightarrow> bool option) \<Rightarrow> string \<Rightarrow> string \<Rightarrow> request \<Rightarrow> store \<Rightarrow>
   auth_result" where
  "authenticate F cmp now ts req s =
     (if falsy_str (req_badge req) \<or> falsy_str (req_pin req) then
        \<lparr>response = Some \<lparr>status = 400, body = ErrorBody ''Badge and PIN are required''\<rparr>,
         db = logAuthAttempt F ts (req_badge req) False (req_ip req) (req_user_agent req)
                (Some ''Missing badge or PIN'') s,
         unhandled = [], actions = [Stmt AuthLogInsert]\<rparr>
      else
        (case select_firefighter F s (the (req_badge req)) of
           Inl err \<Rightarrow>
             \<lparr>response = Some \<lparr>status = 500, body = ErrorBody ''Internal server error''\<rparr>,
              db = s, unhandled = [], actions = [Stmt AuthSelect]\<rparr>
         | Inr row \<Rightarrow>
             with_row F cmp now ts req (the (req_badge req)) (the (req_pin req)) row s))"

text \<open>
  A sequence of calls, each with its own storage faults, clock readings and request, served
  one after the other on the store the previous one left.
\<close>

record call =
  call_faults :: faults
  call_now :: string
  call_ts :: string
  call_request :: request

fun serve :: "(string \<Rightarrow> string option \<Rightarrow> bool option) \<Rightarrow> call list \<Rightarrow> store \<Rightarrow> auth_result list" where
  "serve cmp [] s = []"
| "serve cmp (c # cs) s =
     (let res = authenticate (call_faults c) cmp (call_now c) (call_ts c) (call_request c) s
      in res # serve cmp cs (db res))"

definition store_after :: "store \<Rightarrow> auth_result list \<Rightarrow> store" where
  "store_after s rs = (case rs of [] \<Rightarrow> s | _ \<Rightarrow> db (last rs))"

text \<open>
  The case a call falls in, read off its inputs alone, in the order in which the handler
  tests them: badge or PIN missing, lookup failed, badge unknown, account locked, comparison
  rejected, PIN right, PIN wrong.
\<close>

datatype call_case =
    Missing | LookupFailed | Unknown | Locked | CompareRejected | PinRight | PinWrong

definition case_of_call ::
  "faults \<Rightarrow> (string \<Rightarrow> string option \<Rightarrow> bool option) \<Rightarrow> request \<Rightarrow> store \<Rightarrow> call_case" where
  "case_of_call F cmp req s =
     (if falsy_str (req_badge req) \<or> falsy_str (req_pin req) then Missing
      else
        (case select_firefighter F s (the (req_badge req)) of
           Inl err \<Rightarrow> LookupFailed
         | Inr row \<Rightarrow>
             (case row of
                None \<Rightarrow> Unknown
              | Some r \<Rightarrow>
                  (if truthy_int (account_locked r) then Locked
                   else
                     (case cmp (the (req_pin req)) (pin_hash r) of
                        None \<Rightarrow> CompareRejected
                      | Some isPinValid \<Rightarrow> (if isPinValid then PinRight else PinWrong))))))"

text \<open>Whether the database executes a statement of the call, read off the inputs.\<close>

definition log_insert_runs :: "faults \<Rightarrow> store \<Rightarrow> bool" where
  "log_insert_runs F s \<longleftrightarrow> \<not> F AuthLogInsert \<and> ''auth_logs'' \<in> set (tables s)"

definition update_runs :: "faults \<Rightarrow> site \<Rightarrow> string list \<Rightarrow> store \<Rightarrow> bool" where
  "update_runs F st cols s \<longleftrightarrow>
     \<not> F st \<and> ''firefighters'' \<in> set (tables s) \<and> set cols \<subseteq> set (ff_added_columns s)"

text \<open>
  A call of one of the five kinds (missing input, unknown badge, locked account, right PIN,
  wrong PIN) all of whose statements the database executes.
\<close>

definition executed ::
  "faults \<Rightarrow> (string \<Rightarrow> string option \<Rightarrow> bool option) \<Rightarrow> request \<Rightarrow> store \<Rightarrow> bool" where
  "executed F cmp req s \<longleftrightarrow>
     log_insert_runs F s \<and>
     (case case_of_call F cmp req s of
        Missing \<Rightarrow> True
      | LookupFailed \<Rightarrow> False
      | Unknown \<Rightarrow> True
      | Locked \<Rightarrow> True
      | CompareRejected \<Rightarrow> False
      | PinRight \<Rightarrow> update_runs F AuthResetUpdate [''failed_attempts'', ''last_failed_attempt''] s
      | PinWrong \<Rightarrow> update_runs F AuthFailedUpdate
                      [''failed_attempts'', ''last_failed_attempt'', ''account_locked''] s)"

fun all_executed :: "(string \<Rightarrow> string option \<Rightarrow> bool option) \<Rightarrow> call list \<Rightarrow> store \<Rightarrow> bool" where
  "all_executed cmp [] s = True"
| "all_executed cmp (c # cs) s =
     (executed (call_faults c) cmp (call_request c) s \<and>
      all_executed cmp cs
        (db (authenticate (call_faults c) cmp (call_now c) (call_ts c) (call_request c) s)))"

section \<open>Schema version and migrations\<close>

text \<open>
  The statements of one function take effect in program order. What a migration function
  leaves behind: the error that ended it (\<open>None\<close> when its promise resolves), the store, and
  in \<open>m_unhandled\<close> the error of a statement that was run without a callback. Such an error
  has no listener and ends the process: it is then the error that ended the run, and no
  later statement is executed. An error given to a callback rejects the promise instead.
\<close>

record mig_result =
  m_error :: "db_error option"
  m_store :: store
  m_unhandled :: "db_error list"

definition CURRENT_DB_VERSION :: int where
  "CURRENT_DB_VERSION = 3"

text \<open>\<^verbatim>\<open>CREATE TABLE IF NOT EXISTS name (...)\<close>; \<open>init\<close> empties the rows of the new table.\<close>

definition create_table :: "faults \<Rightarrow> string \<Rightarrow> (store \<Rightarrow> store) \<Rightarrow> store \<Rightarrow> db_error + store" where
  "create_table F name init s =
     (if F (Create name) then Inl (Fault (Create name))
      else if name \<in> set (tables s) then Inr s
      else Inr (init (s\<lparr>tables := tables s @ [name]\<rparr>)))"

text \<open>
  \<^verbatim>\<open>ALTER TABLE firefighters ADD COLUMN col ...\<close>; \<open>dflt\<close> gives the existing rows the default
  of the new column. SQLite has no "if not exists" for columns: adding one that is there fails.
\<close>

definition add_column :: "faults \<Rightarrow> string \<Rightarrow> (firefighter \<Rightarrow> firefighter) \<Rightarrow> store \<Rightarrow> db_error + store" where
  "add_column F col dflt s =
     (if F (AddColumn col) then Inl (Fault (AddColumn col))
      else if ''firefighters'' \<notin> set (tables s) then Inl (NoSuchTable ''firefighters'')
      else if col \<in> set (ff_added_columns s) then Inl (DuplicateColumn col)
      else Inr (s\<lparr>ff_added_columns := ff_added_columns s @ [col],
                  firefighters := map dflt (firefighters s)\<rparr>))"

text \<open>
  The statements of a \<^verbatim>\<open>db.serialize\<close> block that are run without a callback, one after
  the other up to the first that fails: the store then, and that error if there is one.
\<close>

fun run_all_quiet :: "(store \<Rightarrow> db_error + store) list \<Rightarrow> store \<Rightarrow> store \<times> db_error list" where
  "run_all_quiet [] s = (s, [])"
| "run_all_quiet (stmt # rest) s =
     (case stmt s of
        Inl e \<Rightarrow> (s, [e])
      | Inr s' \<Rightarrow> run_all_quiet rest s')"

text \<open>
  The last statement of a block has the callback that settles the promise; it is reached
  when the statements before it raised nothing.
\<close>

definition settle :: "(store \<Rightarrow> db_error + store) \<Rightarrow> store \<times> db_error list \<Rightarrow> mig_result" where
  "settle stmt q =
     (case snd q of
        e # _ \<Rightarrow> \<lparr>m_error = Some e, m_store = fst q, m_unhandled = snd q\<rparr>
      | [] \<Rightarrow>
          (case stmt (fst q) of
             Inl e \<Rightarrow> \<lparr>m_error = Some e, m_store = fst q, m_unhandled = []\<rparr>
           | Inr s' \<Rightarrow> \<lparr>m_error = None, m_store = s', m_unhandled = []\<rparr>))"

text \<open>
  \<^verbatim>\<open>getDatabaseVersion\<close>: two reads, the catalogue and then the first row of the version
  table. No table, or no row in it, is version 0.
\<close>

definition getDatabaseVersion :: "faults \<Rightarrow> store \<Rightarrow> db_error + int" where
  "getDatabaseVersion F s =
     (if F GetVersionMaster then Inl (Fault GetVersionMaster)
      else if ''db_version'' \<notin> set (tables s) then Inr 0
      else if F GetVersionSelect then Inl (Fault GetVersionSelect)
      else Inr (case db_version s of [] \<Rightarrow> 0 | versionRow # _ \<Rightarrow> versionRow))"

text \<open>
  \<^verbatim>\<open>setDatabaseVersion\<close>: CREATE TABLE IF NOT EXISTS, DELETE, INSERT, each sent from the
  callback of the one before and each rejecting the promise when it fails. A failure leaves
  the statements before it done.
\<close>

definition setDatabaseVersion :: "faults \<Rightarrow> int \<Rightarrow> store \<Rightarrow> mig_result" where
  "setDatabaseVersion F version s =
     (case create_table F ''db_version'' (\<lambda>t. t\<lparr>db_version := []\<rparr>) s of
        Inl e \<Rightarrow> \<lparr>m_error = Some e, m_store = s, m_unhandled = []\<rparr>
      | Inr s1 \<Rightarrow>
          if F SetVersionDelete then
            \<lparr>m_error = Some (Fault SetVersionDelete), m_store = s1, m_unhandled = []\<rparr>
          else if F SetVersionInsert then
            \<lparr>m_error = Some (Fault SetVersionInsert), m_store = s1\<lparr>db_version := []\<rparr>,
             m_unhandled = []\<rparr>
          else \<lparr>m_error = None, m_store = s1\<lparr>db_version := [version]\<rparr>, m_unhandled = []\<rparr>)"

text \<open>
  \<^verbatim>\<open>migration_v1\<close> (initial tables): seven CREATE TABLE IF NOT EXISTS in one
  \<^verbatim>\<open>db.serialize\<close> block; only the last has a callback.
\<close>

definition migration_v1 :: "faults \<Rightarrow> store \<Rightarrow> mig_result" where
  "migration_v1 F s =
     settle (create_table F ''station_accounts'' (\<lambda>t. t\<lparr>station_accounts := []\<rparr>))
       (run_all_quiet
          [create_table F ''firefighters'' (\<lambda>t. t\<lparr>ff_added_columns := [], firefighters := []\<rparr>),
           create_table F ''incidents'' id,
           create_table F ''attendees'' id,
           create_table F ''events'' id,
           create_table F ''event_attendees'' id,
           create_table F ''stations'' (\<lambda>t. t\<lparr>stations := []\<rparr>)] s)"

text \<open>
  \<^verbatim>\<open>migration_v2\<close> (authentication features): six ALTER TABLE ... ADD COLUMN and two
  CREATE TABLE IF NOT EXISTS; only the last has a callback. The \<^verbatim>\<open>try\<close> around them catches
  nothing of this: \<^verbatim>\<open>db.run\<close> reports a failed statement later, to the callback or as an
  event.
\<close>

definition migration_v2 :: "faults \<Rightarrow> store \<Rightarrow> mig_result" where
  "migration_v2 F s =
     settle (create_table F ''pin_reset_logs'' id)
       (run_all_quiet
          [add_column F ''pin_hash'' (\<lambda>r. r\<lparr>pin_hash := None\<rparr>),
           add_column F ''pin_reset_at'' (\<lambda>r. r\<lparr>pin_reset_at := None\<rparr>),
           add_column F ''pin_reset_by'' (\<lambda>r. r\<lparr>pin_reset_by := None\<rparr>),
           add_column F ''account_locked'' (\<lambda>r. r\<lparr>account_locked := Some 0\<rparr>),
           add_column F ''failed_attempts'' (\<lambda>r. r\<lparr>failed_attempts := Some 0\<rparr>),
           add_column F ''last_failed_attempt'' (\<lambda>r. r\<lparr>last_failed_attempt := None\<rparr>),
           create_table F ''auth_logs'' (\<lambda>t. t\<lparr>auth_logs := []\<rparr>)] s)"

text \<open>
  \<^verbatim>\<open>migration_v3\<close> (enterprise features) calls \<^verbatim>\<open>resolve()\<close> itself: no statement of it can
  reject the promise. Its three statements are queued ahead of everything that
  \<^verbatim>\<open>runMigrations\<close> sends afterwards.
\<close>

definition migration_v3 :: "faults \<Rightarrow> store \<Rightarrow> mig_result" where
  "migration_v3 F s =
     (let q = run_all_quiet
          [create_table F ''activity_categories'' (\<lambda>t. t\<lparr>activity_categories := []\<rparr>),
           create_table F ''settings'' id,
           create_table F ''audit_log'' id] s
      in \<lparr>m_error = (case snd q of [] \<Rightarrow> None | e # _ \<Rightarrow> Some e), m_store = fst q,
          m_unhandled = snd q\<rparr>)"

text \<open>\<^verbatim>\<open>await\<close> in sequence: a run that has ended skips everything after it.\<close>

definition and_then :: "mig_result \<Rightarrow> (store \<Rightarrow> mig_result) \<Rightarrow> mig_result" where
  "and_then r f =
     (case m_error r of
        Some e \<Rightarrow> r
      | None \<Rightarrow> (f (m_store r))\<lparr>m_unhandled := m_unhandled r @ m_unhandled (f (m_store r))\<rparr>)"

definition resolved :: "store \<Rightarrow> mig_result" where
  "resolved s = \<lparr>m_error = None, m_store = s, m_unhandled = []\<rparr>"

text \<open>
  \<^verbatim>\<open>runMigrations\<close>: the version is read once; each step whose number is above it is
  applied; then \<^verbatim>\<open>CURRENT_DB_VERSION\<close> is written, whatever the version read.
\<close>

definition runMigrations :: "faults \<Rightarrow> store \<Rightarrow> mig_result" where
  "runMigrations F s =
     (case getDatabaseVersion F s of
        Inl e \<Rightarrow> \<lparr>m_error = Some e, m_store = s, m_unhandled = []\<rparr>
      | Inr currentVersion \<Rightarrow>
          and_then
            (and_then
               (and_then
                  (if currentVersion < 1 then migration_v1 F s else resolved s)
                  (\<lambda>t. if currentVersion < 2 then migration_v2 F t else resolved t))
               (\<lambda>t. if currentVersion < 3 then migration_v3 F t else resolved t))
            (setDatabaseVersion F CURRENT_DB_VERSION))"

text \<open>The version a store records, as \<^verbatim>\<open>getDatabaseVersion\<close> reads it when the reads succeed.\<close>

definition recorded_version :: "store \<Rightarrow> int" where
  "recorded_version s =
     (if ''db_version'' \<notin> set (tables s) then 0
      else case db_version s of [] \<Rightarrow> 0 | versionRow # _ \<Rightarrow> versionRow)"

text \<open>Migration runs one after the other, each on the store the previous one left.\<close>

fun migration_runs :: "faults list \<Rightarrow> store \<Rightarrow> mig_result list" where
  "migration_runs [] s = []"
| "migration_runs (F # Fs) s = runMigrations F s # migration_runs Fs (m_store (runMigrations F s))"

section \<open>Seeding the reference data\<close>

text \<open>
  Every INSERT OR IGNORE of \<^verbatim>\<open>insertDefaultData\<close> has the callback \<^verbatim>\<open>() => resolve()\<close>: a
  failed statement is passed over. A row whose key (primary key or UNIQUE column) is in the
  table already is ignored. \<open>clk\<close> is the CURRENT_TIMESTAMP at each statement, \<open>hash\<close> is
  \<^verbatim>\<open>bcrypt.hash(_, 10)\<close>, which salts: two runs do not hash alike. The default hours of the
  categories (a REAL column) are whole numbers and kept as integers.
\<close>

definition defaultStations :: "(string \<times> string \<times> string) list" where
  "defaultStations =
     [(''Station 1'', ''123 Fire Station Rd'', ''555-0001''),
      (''Station 2'', ''456 Emergency Ave'', ''555-0002''),
      (''Station 3'', ''789 Rescue Blvd'', ''555-0003''),
      (''Station 4'', ''321 Safety St'', ''555-0004''),
      (''Station 5'', ''654 Hero Ln'', ''555-0005'')]"

definition stationAccounts :: "(string \<times> string) list" where
  "stationAccounts =
     [(''Station 1'', ''station1pass''),
      (''Station 2'', ''station2pass''),
      (''Station 3'', ''station3pass''),
      (''Station 4'', ''station4pass''),
      (''Station 5'', ''station5pass'')]"

record person =
  p_badge :: string
  p_name :: string
  p_rank :: string
  p_station :: string
  p_pin :: string

definition defaultPersonnel :: "person list" where
  "defaultPersonnel =
     [\<lparr>p_badge = ''001'', p_name = ''John Smith'', p_rank = ''Captain'',
       p_station = ''Station 1'', p_pin = ''1234''\<rparr>,
      \<lparr>p_badge = ''002'', p_name = ''Jane Doe'', p_rank = ''Lieutenant'',
       p_station = ''Station 1'', p_pin = ''2345''\<rparr>,
      \<lparr>p_badge = ''003'', p_name = ''Mike Johnson'', p_rank = ''Firefighter'',
       p_station = ''Station 2'', p_pin = ''3456''\<rparr>,
      \<lparr>p_badge = ''004'', p_name = ''Sarah Williams'', p_rank = ''Engineer'',
       p_station = ''Station 2'', p_pin = ''4567''\<rparr>,
      \<lparr>p_badge = ''005'', p_name = ''Tom Brown'', p_rank = ''Firefighter'',
       p_station = ''Station 3'', p_pin = ''5678''\<rparr>]"

definition defaultCategories :: "(string \<times> string \<times> int) list" where
  "defaultCategories =
     [(''Fire Training'', ''Fire suppression and prevention training'', 4),
      (''EMS Training'', ''Emergency medical services training'', 4),
      (''Equipment Maintenance'', ''Equipment checks and maintenance'', 2),
      (''Community Event'', ''Public education and community engagement'', 3),
      (''Physical Training'', ''Physical fitness and conditioning'', 1)]"

text \<open>\<^verbatim>\<open>person.name.toLowerCase().replace(' ', '.')\<close>: the first blank only.\<close>

definition lower_char :: "char \<Rightarrow> char" where
  "lower_char c =
     (case map_of (zip ''ABCDEFGHIJKLMNOPQRSTUVWXYZ'' ''abcdefghijklmnopqrstuvwxyz'') c of
        Some l \<Rightarrow> l
      | None \<Rightarrow> c)"

definition toLowerCase :: "string \<Rightarrow> string" where
  "toLowerCase t = map lower_char t"

fun replace_first :: "char \<Rightarrow> char \<Rightarrow> string \<Rightarrow> string" where
  "replace_first a b [] = []"
| "replace_first a b (c # cs) = (if c = a then b # cs else c # replace_first a b cs)"

definition email_of :: "string \<Rightarrow> string" where
  "email_of name = replace_first CHR '' '' CHR ''.'' (toLowerCase name) @ ''@firedept.gov''"

definition insert_station :: "faults \<Rightarrow> (site \<Rightarrow> string) \<Rightarrow> string \<times> string \<times> string \<Rightarrow> store \<Rightarrow> store" where
  "insert_station F clk st s =
     (case st of (name, address, phone) \<Rightarrow>
        if F (Seed ''stations'' name) \<or> ''stations'' \<notin> set (tables s)
           \<or> name \<in> set (map st_name (stations s)) then s
        else s\<lparr>stations := stations s @
               [\<lparr>st_name = name, st_address = Some address, st_phone = Some phone,
                 st_created_at = clk (Seed ''stations'' name)\<rparr>]\<rparr>)"

definition insert_account :: "faults \<Rightarrow> (site \<Rightarrow> string) \<Rightarrow> string \<times> string \<Rightarrow> store \<Rightarrow> store" where
  "insert_account F clk account s =
     (case account of (station, password) \<Rightarrow>
        if F (Seed ''station_accounts'' station) \<or> ''station_accounts'' \<notin> set (tables s)
           \<or> station \<in> set (map sa_station_name (station_accounts s)) then s
        else s\<lparr>station_accounts := station_accounts s @
               [\<lparr>sa_station_name = station, sa_password = password,
                 sa_created_at = clk (Seed ''station_accounts'' station)\<rparr>]\<rparr>)"

definition insert_person ::
  "faults \<Rightarrow> (string \<Rightarrow> string) \<Rightarrow> (site \<Rightarrow> string) \<Rightarrow> person \<Rightarrow> store \<Rightarrow> store" where
  "insert_person F hash clk person s =
     (if F (Seed ''firefighters'' (p_badge person)) \<or> ''firefighters'' \<notin> set (tables s)
         \<or> ''pin_hash'' \<notin> set (ff_added_columns s)
         \<or> p_badge person \<in> set (map badge (firefighters s)) then s
      else s\<lparr>firefighters := firefighters s @
             [\<lparr>badge = p_badge person,
               profile =
                 [(''name'', SqlText (p_name person)),
                  (''email'', SqlText (email_of (p_name person))),
                  (''rank'', SqlText (p_rank person)),
                  (''station'', SqlText (p_station person)),
                  (''phone'', SqlNull),
                  (''hire_date'', SqlNull),
                  (''status'', SqlText ''active''),
                  (''certifications'', SqlNull),
                  (''vacation_days_total'', SqlInt 11),
                  (''vacation_days_used'', SqlInt 0),
                  (''created_at'', SqlText (clk (Seed ''firefighters'' (p_badge person)))),
                  (''updated_at'', SqlText (clk (Seed ''firefighters'' (p_badge person))))],
               pin_hash = Some (hash (p_pin person)),
               pin_reset_at = None,
               pin_reset_by = None,
               account_locked =
                 (if ''account_locked'' \<in> set (ff_added_columns s) then Some 0 else None),
               failed_attempts =
                 (if ''failed_attempts'' \<in> set (ff_added_columns s) then Some 0 else None),
               last_failed_attempt = None\<rparr>]\<rparr>)"

definition insert_category :: "faults \<Rightarrow> (site \<Rightarrow> string) \<Rightarrow> string \<times> string \<times> int \<Rightarrow> store \<Rightarrow> store" where
  "insert_category F clk category s =
     (case category of (name, description, hours) \<Rightarrow>
        if F (Seed ''activity_categories'' name) \<or> ''activity_categories'' \<notin> set (tables s)
           \<or> name \<in> set (map ac_category_name (activity_categories s)) then s
        else s\<lparr>activity_categories := activity_categories s @
               [\<lparr>ac_category_name = name, ac_description = Some description,
                 ac_requires_approval = 1, ac_default_hours = hours,
                 ac_created_at = clk (Seed ''activity_categories'' name)\<rparr>]\<rparr>)"

definition insertDefaultData :: "faults \<Rightarrow> (string \<Rightarrow> string) \<Rightarrow> (site \<Rightarrow> string) \<Rightarrow> store \<Rightarrow> store" where
  "insertDefaultData F hash clk s =
     fold (insert_category F clk) defaultCategories
       (fold (insert_person F hash clk) defaultPersonnel
          (fold (insert_account F clk) stationAccounts
             (fold (insert_station F clk) defaultStations s)))"

text \<open>
  \<^verbatim>\<open>initializeDatabase\<close>: the migrations, then the seeding; an error of the migrations is
  thrown on and nothing is seeded.
\<close>

definition initializeDatabase ::
  "faults \<Rightarrow> (string \<Rightarrow> string) \<Rightarrow> (site \<Rightarrow> string) \<Rightarrow> store \<Rightarrow> mig_result" where
  "initializeDatabase F hash clk s =
     (case m_error (runMigrations F s) of
        Some e \<Rightarrow> runMigrations F s
      | None \<Rightarrow> (runMigrations F s)
          \<lparr>m_store := insertDefaultData F hash clk (m_store (runMigrations F s))\<rparr>)"

section \<open>Notions used in the proofs\<close>

text \<open>A row is settled when inserting it again changes nothing, whatever the faults.\<close>

definition station_settled :: "string \<times> string \<times> string \<Rightarrow> store \<Rightarrow> bool" where
  "station_settled st s \<longleftrightarrow>
     ''stations'' \<notin> set (tables s) \<or> fst st \<in> set (map st_name (stations s))"

definition account_settled :: "string \<times> string \<Rightarrow> store \<Rightarrow> bool" where
  "account_settled a s \<longleftrightarrow>
     ''station_accounts'' \<notin> set (tables s) \<or> fst a \<in> set (map sa_station_name (station_accounts s))"

definition person_settled :: "person \<Rightarrow> store \<Rightarrow> bool" where
  "person_settled p s \<longleftrightarrow>
     ''firefighters'' \<notin> set (tables s) \<or> ''pin_hash'' \<notin> set (ff_added_columns s)
     \<or> p_badge p \<in> set (map badge (firefighters s))"

definition category_settled :: "string \<times> string \<times> int \<Rightarrow> store \<Rightarrow> bool" where
  "category_settled c s \<longleftrightarrow>
     ''activity_categories'' \<notin> set (tables s)
     \<or> fst c \<in> set (map ac_category_name (activity_categories s))"

text \<open>The version table: present or not, and its rows.\<close>

definition version_table :: "store \<Rightarrow> bool \<times> int list" where
  "version_table s = (''db_version'' \<in> set (tables s), db_version s)"

definition keeps_version :: "(store \<Rightarrow> db_error + store) \<Rightarrow> bool" where
  "keeps_version stmt \<longleftrightarrow> (\<forall>t t'. stmt t = Inr t' \<longrightarrow> version_table t' = version_table t)"

text \<open>The three steps together, as \<^verbatim>\<open>runMigrations\<close> runs them for a version that was read.\<close>

definition pending_steps :: "faults \<Rightarrow> int \<Rightarrow> store \<Rightarrow> mig_result" where
  "pending_steps F currentVersion s =
     and_then
       (and_then
          (if currentVersion < 1 then migration_v1 F s else resolved s)
          (\<lambda>t. if currentVersion < 2 then migration_v2 F t else resolved t))
       (\<lambda>t. if currentVersion < 3 then migration_v3 F t else resolved t)"

text \<open>
  A store on which the pending steps raise nothing when the storage layer works:
  \<^verbatim>\<open>migration_v2\<close> is not pending, or the table of firefighters has none of its six columns
  yet, or that table is still to be created by \<^verbatim>\<open>migration_v1\<close>.
\<close>

definition auth_columns :: "string list" where
  "auth_columns =
     [''pin_hash'', ''pin_reset_at'', ''pin_reset_by'', ''account_locked'', ''failed_attempts'',
      ''last_failed_attempt'']"

definition applies_cleanly :: "store \<Rightarrow> bool" where
  "applies_cleanly s \<longleftrightarrow>
     2 \<le> recorded_version s \<or>
     (if ''firefighters'' \<in> set (tables s)
      then set auth_columns \<inter> set (ff_added_columns s) = {}
      else recorded_version s < 1)"

text \<open>No key occurs twice in the four tables of reference data.\<close>

definition keys_distinct :: "store \<Rightarrow> bool" where
  "keys_distinct s \<longleftrightarrow>
     distinct (map st_name (stations s)) \<and> distinct (map sa_station_name (station_accounts s))
     \<and> distinct (map badge (firefighters s))
     \<and> distinct (map ac_category_name (activity_categories s))"

definition keeps_keys :: "(store \<Rightarrow> db_error + store) \<Rightarrow> bool" where
  "keeps_keys stmt \<longleftrightarrow> (\<forall>t t'. stmt t = Inr t' \<longrightarrow> keys_distinct t \<longrightarrow> keys_distinct t')"

section \<open>A concrete store for running the definitions\<close>

definition example_firefighter :: firefighter where
  "example_firefighter =
     \<lparr>badge = ''001'',
      profile = [(''name'', SqlText ''John Smith''), (''rank'', SqlText ''Captain'')],
      pin_hash = Some ''hash of 1234'', pin_reset_at = None, pin_reset_by = None,
      account_locked = Some 0, failed_attempts = Some 4, last_failed_attempt = None\<rparr>"

definition example_store :: store where
  "example_store =
     \<lparr>tables = [''firefighters'', ''auth_logs'', ''db_version''],
      ff_added_columns = [''pin_hash'', ''pin_reset_at'', ''pin_reset_by'', ''account_locked'',
                          ''failed_attempts'', ''last_failed_attempt''],
      firefighters = [example_firefighter],
      stations = [], station_accounts = [], activity_categories = [], auth_logs = [],
      db_version = [3]\<rparr>"

definition example_compare :: "string \<Rightarrow> string option \<Rightarrow> bool option" where
  "example_compare pin h = (case h of None \<Rightarrow> None | Some t \<Rightarrow> Some (t = ''hash of '' @ pin))"

definition fails_at :: "site \<Rightarrow> faults" where
  "fails_at place = (\<lambda>st. st = place)"

definition three_runs :: "faults list" where
  "three_runs = [fails_at (Create ''station_accounts''), no_faults, fails_at SetVersionDelete]"

definition log_insert_fails :: faults where
  "log_insert_fails = (\<lambda>st. st = AuthLogInsert)"

definition empty_store :: store where
  "empty_store =
     \<lparr>tables = [], ff_added_columns = [], firefighters = [], stations = [],
      station_accounts = [], activity_categories = [], auth_logs = [], db_version = []\<rparr>"

definition example_hash :: "string \<Rightarrow> string" where
  "example_hash pin = ''hash of '' @ pin"

definition example_clock :: "site \<Rightarrow> string" where
  "example_clock st = ''2024-01-01 00:00:00''"

definition select_fails :: faults where
  "select_fails = (\<lambda>st. st = AuthSelect)"

definition locked_store :: store where
  "locked_store =
     example_store\<lparr>firefighters :=
       [example_firefighter\<lparr>account_locked := Some 1, failed_attempts := Some 5\<rparr>]\<rparr>"

definition example_request :: "string option \<Rightarrow> string option \<Rightarrow> request" where
  "example_request b p =
     \<lparr>req_badge = b, req_pin = p, req_ip = Some ''10.0.0.7'', req_user_agent = Some ''curl''\<rparr>"

definition after_v2 :: store where
  "after_v2 = m_store (migration_v2 no_faults (m_store (migration_v1 no_faults empty_store)))"

definition newer_store :: store where
  "newer_store = empty_store\<lparr>tables := [''db_version''], db_version := [5]\<rparr>"

definition second_hash :: "string \<Rightarrow> string" where
  "second_hash pin = ''another hash of '' @ pin"

definition second_clock :: "site \<Rightarrow> string" where
  "second_clock st = ''2024-06-30 12:00:00''"

definition seeded_store :: store where
  "seeded_store = m_store (initializeDatabase no_faults example_hash example_clock empty_store)"

definition roster_store :: store where
  "roster_store =
     example_store\<lparr>firefighters :=
       [example_firefighter\<lparr>failed_attempts := Some 0\<rparr>,
        example_firefighter\<lparr>badge := ''002'', pin_hash := Some ''hash of 2345'',
                            account_locked := Some 1, failed_attempts := Some 5\<rparr>,
        example_firefighter\<lparr>badge := ''003'', pin_hash := Some ''hash of 3456''\<rparr>]\<rparr>"

definition example_call :: "string option \<Rightarrow> string option \<Rightarrow> call" where
  "example_call b p =
     \<lparr>call_faults = no_faults, call_now = ''t1'', call_ts = ''t0'',
      call_request = example_request b p\<rparr>"

definition six_calls :: "call list" where
  "six_calls =
     [example_call (Some ''001'') (Some ''1234''),
      example_call (Some ''003'') (Some ''0000''),
      example_call (Some ''002'') (Some ''2345''),
      example_call (Some ''999'') (Some ''1234''),
      example_call (Some ''001'') None,
      example_call (Some ''001'') (Some ''0000'')]"


section \<open>Facts about the statements\<close>

declare bitlen.simps [simp del]

lemma or_zero_simps: "or_zero None = 0" "or_zero (Some n) = n"
  by (simp_all add: or_zero_def truthy_int_def)

lemma bitlen_le: "bitlen n \<le> k \<longleftrightarrow> n < 2 ^ k"
proof (induction n arbitrary: k rule: bitlen.induct)
  case (1 n)
  show ?case
  proof (cases "n = 0")
    case True
    then show ?thesis by (simp add: bitlen.simps [of 0])
  next
    case False
    show ?thesis
    proof (cases k)
      case 0
      with False show ?thesis by (simp add: bitlen.simps [of n])
    next
      case (Suc j)
      have "bitlen n \<le> Suc j \<longleftrightarrow> bitlen (n div 2) \<le> j"
        using False by (simp add: bitlen.simps [of n])
      also have "\<dots> \<longleftrightarrow> n div 2 < 2 ^ j"
        using "1.IH" [OF False] by simp
      also have "\<dots> \<longleftrightarrow> n < 2 ^ j * 2"
        by (rule div_less_iff_less_mult) simp
      finally show ?thesis using Suc by (simp add: mult.commute)
    qed
  qed
qed

lemma bitlen_power: "bitlen (2 ^ k) = Suc k"
proof -
  have "bitlen (2 ^ k) \<le> Suc k" by (simp add: bitlen_le)
  moreover have "\<not> bitlen (2 ^ k) \<le> k" by (simp add: bitlen_le)
  ultimately show ?thesis by simp
qed

text \<open>An integer of magnitude up to \<open>2^53\<close> is a number as it stands.\<close>

lemma js_number_exact:
  assumes "\<bar>m\<bar> \<le> 2 ^ 53"
  shows "js_number m = m"
proof (cases "\<bar>m\<bar> < 2 ^ 53")
  case True
  then have "nat \<bar>m\<bar> < 2 ^ 53" by simp
  then have "bitlen (nat \<bar>m\<bar>) - 53 = 0" by (simp add: bitlen_le)
  then show ?thesis
    by (simp add: js_number_def Let_def mult_sgn_abs)
next
  case False
  with assms have m: "\<bar>m\<bar> = 2 ^ 53" by simp
  then have a: "nat \<bar>m\<bar> = 2 ^ 53" by simp
  have "bitlen (nat \<bar>m\<bar>) = 54"
    using bitlen_power [of 53] a by simp
  then have "js_number m = sgn m * int (nat \<bar>m\<bar>)"
    by (simp add: js_number_def Let_def a)
  then show ?thesis by (simp add: mult_sgn_abs)
qed

text \<open>Beyond that the sum with 1 is rounded: \<open>2^53 + 1\<close> is read as \<open>2^53\<close>.\<close>

lemma js_number_rounds: "js_number (2 ^ 53 + 1) = 2 ^ 53"
proof -
  have b: "bitlen (nat \<bar>2 ^ 53 + 1\<bar>) = 54"
  proof -
    have "bitlen (nat \<bar>2 ^ 53 + 1\<bar>) \<le> 54" by (simp add: bitlen_le)
    moreover have "\<not> bitlen (nat \<bar>2 ^ 53 + 1\<bar>) \<le> 53" by (simp add: bitlen_le)
    ultimately show ?thesis by simp
  qed
  show ?thesis
    using b by (simp add: js_number_def Let_def)
qed

text \<open>
  \<^verbatim>\<open>(firefighter.failed_attempts || 0) + 1\<close> for a stored counter of magnitude below \<open>2^53\<close>.
\<close>

lemma counter_read_exact:
  assumes "\<bar>or_zero v\<bar> < 2 ^ 53"
  shows "js_number (or_zero (map_option js_number v) + 1) = or_zero v + 1"
proof (cases v)
  case None
  then show ?thesis by (simp add: or_zero_simps js_number_exact)
next
  case (Some m)
  with assms have m: "\<bar>m\<bar> < 2 ^ 53" by (simp add: or_zero_simps)
  then have "js_number m = m" by (simp add: js_number_exact)
  moreover from m have "js_number (m + 1) = m + 1" by (intro js_number_exact) simp
  ultimately show ?thesis using Some by (simp add: or_zero_simps)
qed

lemma logAuthAttempt_keeps:
  "tables (logAuthAttempt F ts b ok ip ua why s) = tables s"
  "ff_added_columns (logAuthAttempt F ts b ok ip ua why s) = ff_added_columns s"
  "firefighters (logAuthAttempt F ts b ok ip ua why s) = firefighters s"
  "stations (logAuthAttempt F ts b ok ip ua why s) = stations s"
  "station_accounts (logAuthAttempt F ts b ok ip ua why s) = station_accounts s"
  "activity_categories (logAuthAttempt F ts b ok ip ua why s) = activity_categories s"
  "db_version (logAuthAttempt F ts b ok ip ua why s) = db_version s"
  by (simp_all add: logAuthAttempt_def)

lemma logAuthAttempt_logs:
  "auth_logs (logAuthAttempt F ts b ok ip ua why s) =
     (if F AuthLogInsert \<or> ''auth_logs'' \<notin> set (tables s) then auth_logs s
      else auth_logs s @
        [\<lparr>al_badge = b, al_attempt_time = ts, al_success = (if ok then 1 else 0),
          al_ip_address = ip, al_user_agent = ua, al_failure_reason = why\<rparr>])"
  by (simp add: logAuthAttempt_def)

lemma find_badge_update:
  assumes "\<And>r. badge (f r) = badge r"
  shows "find (\<lambda>r. badge r = b) (map (\<lambda>r. if badge r = b then f r else r) rows) =
         map_option f (find (\<lambda>r. badge r = b) rows)"
  using assms by (induction rows) auto

lemma update_firefighter_runs:
  assumes "\<not> F st" "''firefighters'' \<in> set (tables s)" "set cols \<subseteq> set (ff_added_columns s)"
  shows "update_firefighter F st cols f b s =
         Inr (s\<lparr>firefighters := map (\<lambda>r. if badge r = b then f r else r) (firefighters s)\<rparr>)"
proof -
  have "find (\<lambda>c. c \<notin> set (ff_added_columns s)) cols = None"
    using assms(3) by (auto simp: find_None_iff)
  then show ?thesis using assms(1,2) by (simp add: update_firefighter_def)
qed

lemma update_firefighter_fails:
  assumes "\<not> update_runs F st cols s"
  shows "\<exists>e. update_firefighter F st cols f b s = Inl e"
proof (cases "F st \<or> ''firefighters'' \<notin> set (tables s)")
  case True
  then show ?thesis by (auto simp: update_firefighter_def)
next
  case False
  with assms have "\<not> set cols \<subseteq> set (ff_added_columns s)"
    by (simp add: update_runs_def)
  then have "find (\<lambda>c. c \<notin> set (ff_added_columns s)) cols \<noteq> None"
    by (auto simp: find_None_iff)
  then obtain c where "find (\<lambda>c. c \<notin> set (ff_added_columns s)) cols = Some c"
    by blast
  with False show ?thesis by (simp add: update_firefighter_def)
qed

lemma update_firefighter_keeps:
  assumes "update_firefighter F st cols f b s = Inr s1"
  shows "tables s1 = tables s" "auth_logs s1 = auth_logs s"
    "ff_added_columns s1 = ff_added_columns s"
  using assms by (auto simp: update_firefighter_def split: if_splits option.splits)

lemma select_found_table:
  "select_firefighter F s b = Inr row \<Longrightarrow>
     \<not> F AuthSelect \<and> ''firefighters'' \<in> set (tables s) \<and>
     row = find (\<lambda>r. badge r = b) (firefighters s)"
  by (auto simp: select_firefighter_def split: if_splits)

lemma present_not_falsy:
  "req_badge req = Some b \<Longrightarrow> b \<noteq> [] \<Longrightarrow> req_pin req = Some p \<Longrightarrow> p \<noteq> [] \<Longrightarrow>
     \<not> (falsy_str (req_badge req) \<or> falsy_str (req_pin req))"
  by (simp add: falsy_str_def)

lemma not_falsy_present: "\<not> falsy_str v \<Longrightarrow> v = Some (the v)"
  by (cases v) (simp_all add: falsy_str_def)

lemma select_firefighter_logAuthAttempt:
  "select_firefighter F (logAuthAttempt F' ts b ok ip ua why s) k = select_firefighter F s k"
  by (simp add: select_firefighter_def logAuthAttempt_keeps)

lemma safeFirefighter_keys: "''pin_hash'' \<notin> fst ` set (safeFirefighter obj)"
  by (auto simp: safeFirefighter_def)

lemma safeFirefighter_rest:
  "k \<noteq> ''pin_hash'' \<Longrightarrow> (k, v) \<in> set (safeFirefighter obj) \<longleftrightarrow> (k, v) \<in> set obj"
  by (auto simp: safeFirefighter_def)

text \<open>The two branches on the PIN, by whether the database executes their UPDATE.\<close>

lemma pin_valid_runs:
  assumes "update_runs F AuthResetUpdate [''failed_attempts'', ''last_failed_attempt''] s"
  shows "pin_valid F ts req b r s =
     \<lparr>response = Some \<lparr>status = 200, body = SuccessBody (safeFirefighter (row_object s r))\<rparr>,
      db = logAuthAttempt F ts (Some b) True (req_ip req) (req_user_agent req) None
             (s\<lparr>firefighters :=
                  map (\<lambda>x. if badge x = b
                            then x\<lparr>failed_attempts := Some 0, last_failed_attempt := None\<rparr>
                            else x) (firefighters s)\<rparr>),
      unhandled = [],
      actions = [Stmt AuthSelect, Compare, Stmt AuthResetUpdate, Stmt AuthLogInsert]\<rparr>"
proof -
  from assms have "\<not> F AuthResetUpdate" "''firefighters'' \<in> set (tables s)"
    "set [''failed_attempts'', ''last_failed_attempt''] \<subseteq> set (ff_added_columns s)"
    by (simp_all add: update_runs_def)
  then show ?thesis
    by (simp add: pin_valid_def update_firefighter_runs)
qed

lemma pin_valid_dies:
  assumes "\<not> update_runs F AuthResetUpdate [''failed_attempts'', ''last_failed_attempt''] s"
  shows "response (pin_valid F ts req b r s) = None \<and> db (pin_valid F ts req b r s) = s
         \<and> unhandled (pin_valid F ts req b r s) \<noteq> []"
proof -
  from update_firefighter_fails [OF assms]
  obtain e where "update_firefighter F AuthResetUpdate [''failed_attempts'', ''last_failed_attempt'']
      (\<lambda>r. r\<lparr>failed_attempts := Some 0, last_failed_attempt := None\<rparr>) b s = Inl e"
    by blast
  then show ?thesis by (simp add: pin_valid_def)
qed

lemma pin_invalid_runs:
  assumes "update_runs F AuthFailedUpdate
             [''failed_attempts'', ''last_failed_attempt'', ''account_locked''] s"
  shows "pin_invalid F now ts req b r s =
     \<lparr>response = Some
        (if 5 \<le> js_number (or_zero (map_option js_number (failed_attempts r)) + 1) then
           \<lparr>status = 423, body = ErrorBody
             ''Account locked due to multiple failed attempts. Contact administrator.''\<rparr>
         else \<lparr>status = 401, body = ErrorBody ''Invalid PIN''\<rparr>),
      db = logAuthAttempt F ts (Some b) False (req_ip req) (req_user_agent req)
             (Some ''Invalid PIN'')
             (s\<lparr>firefighters :=
                  map (\<lambda>x. if badge x = b
                            then x\<lparr>failed_attempts :=
                                     Some (js_number
                                       (or_zero (map_option js_number (failed_attempts r)) + 1)),
                                   last_failed_attempt := Some now,
                                   account_locked :=
                                     Some (if 5 \<le> js_number
                                             (or_zero (map_option js_number (failed_attempts r)) + 1)
                                           then 1 else 0)\<rparr>
                            else x) (firefighters s)\<rparr>),
      unhandled = [],
      actions = [Stmt AuthSelect, Compare, Stmt AuthFailedUpdate, Stmt AuthLogInsert]\<rparr>"
proof -
  from assms have "\<not> F AuthFailedUpdate" "''firefighters'' \<in> set (tables s)"
    "set [''failed_attempts'', ''last_failed_attempt'', ''account_locked'']
       \<subseteq> set (ff_added_columns s)"
    by (simp_all add: update_runs_def)
  then show ?thesis
    by (simp add: pin_invalid_def Let_def update_firefighter_runs)
qed

lemma pin_invalid_dies:
  assumes "\<not> update_runs F AuthFailedUpdate
               [''failed_attempts'', ''last_failed_attempt'', ''account_locked''] s"
  shows "response (pin_invalid F now ts req b r s) = None \<and> db (pin_invalid F now ts req b r s) = s
         \<and> unhandled (pin_invalid F now ts req b r s) \<noteq> []"
proof -
  let ?n = "js_number (or_zero (map_option js_number (failed_attempts r)) + 1)"
  let ?f = "\<lambda>x. x\<lparr>failed_attempts := Some ?n, last_failed_attempt := Some now,
                   account_locked := Some (if 5 \<le> ?n then 1 else 0)\<rparr>"
  from update_firefighter_fails [OF assms, of ?f b]
  obtain e where "update_firefighter F AuthFailedUpdate
      [''failed_attempts'', ''last_failed_attempt'', ''account_locked''] ?f b s = Inl e"
    by blast
  then show ?thesis
    by (simp add: pin_invalid_def Let_def)
qed

lemma pin_branch_log_grows:
  "\<exists>new. auth_logs (db (pin_valid F ts req b r s)) = auth_logs s @ new \<and> length new \<le> 1"
  "\<exists>new. auth_logs (db (pin_invalid F now ts req b r s)) = auth_logs s @ new \<and> length new \<le> 1"
proof -
  show "\<exists>new. auth_logs (db (pin_valid F ts req b r s)) = auth_logs s @ new \<and> length new \<le> 1"
    by (cases "update_runs F AuthResetUpdate [''failed_attempts'', ''last_failed_attempt''] s")
      (simp_all add: pin_valid_runs pin_valid_dies logAuthAttempt_logs)
  show "\<exists>new. auth_logs (db (pin_invalid F now ts req b r s)) = auth_logs s @ new \<and> length new \<le> 1"
    by (cases "update_runs F AuthFailedUpdate
                 [''failed_attempts'', ''last_failed_attempt'', ''account_locked''] s")
      (simp_all add: pin_invalid_runs pin_invalid_dies logAuthAttempt_logs)
qed


lemma pin_branch_tables:
  "tables (db (pin_valid F ts req b r s)) = tables s"
  "tables (db (pin_invalid F now ts req b r s)) = tables s"
proof -
  show "tables (db (pin_valid F ts req b r s)) = tables s"
    by (cases "update_runs F AuthResetUpdate [''failed_attempts'', ''last_failed_attempt''] s")
      (simp_all add: pin_valid_runs pin_valid_dies logAuthAttempt_keeps)
  show "tables (db (pin_invalid F now ts req b r s)) = tables s"
    by (cases "update_runs F AuthFailedUpdate
                 [''failed_attempts'', ''last_failed_attempt'', ''account_locked''] s")
      (simp_all add: pin_invalid_runs pin_invalid_dies logAuthAttempt_keeps)
qed

lemma pin_branch_body:
  "response (pin_valid F ts req b r s) = Some \<lparr>status = c, body = SuccessBody obj\<rparr> \<Longrightarrow>
     obj = safeFirefighter (row_object s r)"
  "response (pin_invalid F now ts req b r s) \<noteq> Some \<lparr>status = c, body = SuccessBody obj\<rparr>"
  by (auto simp: pin_valid_def pin_invalid_def Let_def split: sum.splits if_splits)

lemmas handler_defs = authenticate_def with_row_def

lemma success_body_is_safe:
  assumes "response (authenticate F cmp now ts req s) = Some \<lparr>status = c, body = SuccessBody obj\<rparr>"
  shows "\<exists>r. obj = safeFirefighter (row_object s r)"
  using assms
  by (auto simp: handler_defs pin_branch_body(2) split: if_splits sum.splits option.splits
      dest!: pin_branch_body(1))

lemma authenticate_tables: "tables (db (authenticate F cmp now ts req s)) = tables s"
  by (simp add: handler_defs logAuthAttempt_keeps pin_branch_tables
      split: sum.splits option.splits)

lemma authenticate_log_grows:
  "\<exists>new. auth_logs (db (authenticate F cmp now ts req s)) = auth_logs s @ new \<and> length new \<le> 1"
proof -
  define P where "P t \<longleftrightarrow> (\<exists>new. auth_logs t = auth_logs s @ new \<and> length new \<le> 1)"
    for t :: store
  have a: "P (logAuthAttempt F ts b ok ip ua why s)" for b ok ip ua why
    by (simp add: P_def logAuthAttempt_logs)
  have b: "P (db (pin_valid F ts req b r s))" "P (db (pin_invalid F now ts req b r s))" for b r
    unfolding P_def by (rule pin_branch_log_grows)+
  have c: "P s"
    by (simp add: P_def)
  have "P (db (authenticate F cmp now ts req s))"
    by (simp add: handler_defs a b c split: sum.splits option.splits)
  then show ?thesis
    by (simp add: P_def)
qed

text \<open>The entry that a call of each kind inserts.\<close>

lemma authenticate_executed:
  assumes "executed F cmp req s"
  shows "auth_logs (db (authenticate F cmp now ts req s)) = auth_logs s @
           [\<lparr>al_badge = req_badge req, al_attempt_time = ts,
             al_success = (if case_of_call F cmp req s = PinRight then 1 else 0),
             al_ip_address = req_ip req, al_user_agent = req_user_agent req,
             al_failure_reason =
               (case case_of_call F cmp req s of
                  Missing \<Rightarrow> Some ''Missing badge or PIN''
                | Unknown \<Rightarrow> Some ''Badge not found''
                | Locked \<Rightarrow> Some ''Account locked''
                | PinWrong \<Rightarrow> Some ''Invalid PIN''
                | _ \<Rightarrow> None)\<rparr>]"
    and "length (filter (\<lambda>a. a = Stmt AuthLogInsert) (actions (authenticate F cmp now ts req s))) = 1"
    and "response (authenticate F cmp now ts req s) \<noteq> None"
proof -
  from assms have ins: "\<not> F AuthLogInsert" "''auth_logs'' \<in> set (tables s)"
    by (simp_all add: executed_def log_insert_runs_def)
  show "auth_logs (db (authenticate F cmp now ts req s)) = auth_logs s @
           [\<lparr>al_badge = req_badge req, al_attempt_time = ts,
             al_success = (if case_of_call F cmp req s = PinRight then 1 else 0),
             al_ip_address = req_ip req, al_user_agent = req_user_agent req,
             al_failure_reason =
               (case case_of_call F cmp req s of
                  Missing \<Rightarrow> Some ''Missing badge or PIN''
                | Unknown \<Rightarrow> Some ''Badge not found''
                | Locked \<Rightarrow> Some ''Account locked''
                | PinWrong \<Rightarrow> Some ''Invalid PIN''
                | _ \<Rightarrow> None)\<rparr>]"
    using assms ins not_falsy_present [of "req_badge req"]
    by (auto simp: executed_def case_of_call_def handler_defs logAuthAttempt_logs
        pin_valid_runs pin_invalid_runs
        split: sum.splits option.splits if_splits)
  show "length (filter (\<lambda>a. a = Stmt AuthLogInsert) (actions (authenticate F cmp now ts req s))) = 1"
    using assms
    by (auto simp: executed_def case_of_call_def handler_defs pin_valid_runs pin_invalid_runs
        split: sum.splits option.splits if_splits)
  show "response (authenticate F cmp now ts req s) \<noteq> None"
    using assms
    by (auto simp: executed_def case_of_call_def handler_defs pin_valid_runs pin_invalid_runs
        split: sum.splits option.splits if_splits)
qed



lemma serve_logs:
  assumes "all_executed cmp cs s"
  shows "\<exists>new. auth_logs (store_after s (serve cmp cs s)) = auth_logs s @ new
               \<and> length new = length cs
               \<and> map al_badge new = map (\<lambda>c. req_badge (call_request c)) cs"
  using assms
proof (induction cs arbitrary: s)
  case Nil
  then show ?case by (simp add: store_after_def)
next
  case (Cons c cs)
  let ?res = "authenticate (call_faults c) cmp (call_now c) (call_ts c) (call_request c) s"
  from Cons.prems have ex: "executed (call_faults c) cmp (call_request c) s"
    and rest: "all_executed cmp cs (db ?res)"
    by simp_all
  from authenticate_executed(1) [OF ex, of "call_now c" "call_ts c"]
  obtain e where e: "auth_logs (db ?res) = auth_logs s @ [e]"
    and eb: "al_badge e = req_badge (call_request c)"
    by simp
  from Cons.IH [OF rest]
  obtain new where new:
    "auth_logs (store_after (db ?res) (serve cmp cs (db ?res))) = auth_logs (db ?res) @ new"
    "length new = length cs" "map al_badge new = map (\<lambda>c. req_badge (call_request c)) cs"
    by blast
  have after: "store_after s (serve cmp (c # cs) s) =
               store_after (db ?res) (serve cmp cs (db ?res))"
    by (cases "serve cmp cs (db ?res)") (simp_all add: store_after_def Let_def)
  have "auth_logs (store_after s (serve cmp (c # cs) s)) = auth_logs s @ (e # new)"
    unfolding after using new(1) e by simp
  moreover have "length (e # new) = length (c # cs)"
    using new(2) by simp
  moreover have "map al_badge (e # new) = map (\<lambda>c. req_badge (call_request c)) (c # cs)"
    using new(3) eb by simp
  ultimately show ?case by blast
qed

lemmas example_defs =
  example_store_def example_firefighter_def example_compare_def example_request_def
  no_faults_def

lemmas run_defs =
  authenticate_def with_row_def pin_valid_def pin_invalid_def Let_def
  logAuthAttempt_def select_firefighter_def update_firefighter_def
  falsy_str_def truthy_int_def or_zero_def row_object_def safeFirefighter_def
  added_value_def js_value_def

section \<open>The failed-attempt counter and the lockout\<close>

text \<open>
  Claim C1. A call with badge and PIN present, whose lookup finds an unlocked record and whose
  PIN comparison resolves to false, whose UPDATE is executed (no storage fault, the three
  columns exist), and whose stored counter is of magnitude below \<open>2^53\<close>, so that JavaScript
  adds 1 to it exactly: the record stored under the badge afterwards has its counter at the
  prior value plus one (NULL counting as 0, as \<^verbatim>\<open>failed_attempts || 0\<close> reads it), its
  lockout flag is truthy exactly when the new counter is at least 5, and the response is 423
  with the lockout message in that case and 401 "Invalid PIN" otherwise. From a counter of 4
  the call stores counter 5 and flag 1 and answers 423.
\<close>

theorem failed_verification_counts_and_locks:
  assumes badge: "req_badge req = Some b" "b \<noteq> []"
      and pin: "req_pin req = Some p" "p \<noteq> []"
      and row: "select_firefighter F s b = Inr (Some r)"
      and unlocked: "\<not> truthy_int (account_locked r)"
      and wrong: "cmp p (pin_hash r) = Some False"
      and upd: "\<not> F AuthFailedUpdate"
        "set [''failed_attempts'', ''last_failed_attempt'', ''account_locked'']
           \<subseteq> set (ff_added_columns s)"
      and small: "\<bar>or_zero (failed_attempts r)\<bar> < 2 ^ 53"
  shows "\<exists>r'. select_firefighter F (db (authenticate F cmp now ts req s)) b = Inr (Some r')
           \<and> failed_attempts r' = Some (or_zero (failed_attempts r) + 1)
           \<and> (\<forall>n. failed_attempts r = Some n \<longrightarrow> failed_attempts r' = Some (n + 1))
           \<and> (truthy_int (account_locked r') \<longleftrightarrow> 5 \<le> or_zero (failed_attempts r) + 1)
           \<and> response (authenticate F cmp now ts req s) =
               Some (if 5 \<le> or_zero (failed_attempts r) + 1
                     then \<lparr>status = 423, body = ErrorBody
                       ''Account locked due to multiple failed attempts. Contact administrator.''\<rparr>
                     else \<lparr>status = 401, body = ErrorBody ''Invalid PIN''\<rparr>)
           \<and> (failed_attempts r = Some 4 \<longrightarrow>
                 failed_attempts r' = Some 5 \<and> account_locked r' = Some 1 \<and>
                 map_option status (response (authenticate F cmp now ts req s)) = Some 423)"
proof -
  let ?n = "or_zero (failed_attempts r) + 1"
  let ?f = "\<lambda>x. x\<lparr>failed_attempts := Some ?n, last_failed_attempt := Some now,
                   account_locked := Some (if 5 \<le> ?n then 1 else 0)\<rparr>"
  from row have tab: "\<not> F AuthSelect" "''firefighters'' \<in> set (tables s)"
    and found: "find (\<lambda>x. badge x = b) (firefighters s) = Some r"
    using select_found_table by fastforce+
  have run: "authenticate F cmp now ts req s = pin_invalid F now ts req b r s"
    using present_not_falsy [OF badge pin] badge pin row unlocked wrong
    by (simp add: authenticate_def with_row_def)
  have cnt: "js_number (or_zero (map_option js_number (failed_attempts r)) + 1) = ?n"
    using small by (rule counter_read_exact)
  have runs: "update_runs F AuthFailedUpdate
                [''failed_attempts'', ''last_failed_attempt'', ''account_locked''] s"
    using upd tab by (simp add: update_runs_def)
  have sel: "select_firefighter F (db (pin_invalid F now ts req b r s)) b = Inr (Some (?f r))"
    using tab found
    by (simp add: pin_invalid_runs [OF runs] cnt select_firefighter_def
        logAuthAttempt_keeps find_badge_update)
  have resp: "response (pin_invalid F now ts req b r s) =
               Some (if 5 \<le> ?n
                     then \<lparr>status = 423, body = ErrorBody
                       ''Account locked due to multiple failed attempts. Contact administrator.''\<rparr>
                     else \<lparr>status = 401, body = ErrorBody ''Invalid PIN''\<rparr>)"
    by (simp add: pin_invalid_runs [OF runs] cnt)
  show ?thesis
    unfolding run
    apply (rule exI [of _ "?f r"])
    using sel resp by (auto simp: truthy_int_def or_zero_simps)
qed

text \<open>The claim at the example record: counter 4, wrong PIN 0000.\<close>

theorem failed_verification_counts_and_locks_witness:
  "select_firefighter no_faults example_store ''001'' = Inr (Some example_firefighter)
   \<and> failed_attempts example_firefighter = Some 4
   \<and> example_compare ''0000'' (pin_hash example_firefighter) = Some False
   \<and> (\<exists>r'. select_firefighter no_faults
              (db (authenticate no_faults example_compare ''t1'' ''t0''
                     (example_request (Some ''001'') (Some ''0000'')) example_store)) ''001''
              = Inr (Some r')
            \<and> failed_attempts r' = Some 5 \<and> account_locked r' = Some 1)
   \<and> map_option status
        (response (authenticate no_faults example_compare ''t1'' ''t0''
                     (example_request (Some ''001'') (Some ''0000'')) example_store)) = Some 423"
proof -
  let ?req = "example_request (Some ''001'') (Some ''0000'')"
  have row: "select_firefighter no_faults example_store ''001'' = Inr (Some example_firefighter)"
    by (simp add: example_defs select_firefighter_def)
  have four: "failed_attempts example_firefighter = Some 4"
    by (simp add: example_firefighter_def)
  have wrong: "example_compare ''0000'' (pin_hash example_firefighter) = Some False"
    by (simp add: example_defs)
  have unlocked: "\<not> truthy_int (account_locked example_firefighter)"
    by (simp add: example_firefighter_def truthy_int_def)
  have cols: "set [''failed_attempts'', ''last_failed_attempt'', ''account_locked'']
                \<subseteq> set (ff_added_columns example_store)"
    by (simp add: example_store_def)
  have small: "\<bar>or_zero (failed_attempts example_firefighter)\<bar> < 2 ^ 53"
    by (simp add: four or_zero_simps)
  have "\<not> no_faults AuthFailedUpdate"
    by (simp add: no_faults_def)
  from failed_verification_counts_and_locks
    [of ?req "''001''" "''0000''" no_faults example_store example_firefighter example_compare
        "''t1''" "''t0''", OF _ _ _ _ row unlocked wrong this cols small]
  show ?thesis
    using row four wrong by (auto simp: example_request_def)
qed

section \<open>The locked account\<close>

text \<open>
  Claim C3. A call with badge and PIN present whose lookup finds a record with a truthy
  lockout flag answers 423 "Account is locked. Contact administrator.", whatever the PIN
  comparison would say: the comparison is not called and no UPDATE is sent (the statements of
  the call are the SELECT and the INSERT into the log). The store is left as it was except
  for the log, so the counter and every other field of the record are unchanged, and when
  the INSERT is executed the log gains one entry for the badge, with success 0 and the
  reason "Account locked" (stored with a capital A).
\<close>

theorem locked_account_refused_before_verification:
  assumes badge: "req_badge req = Some b" "b \<noteq> []"
      and pin: "req_pin req = Some p" "p \<noteq> []"
      and row: "select_firefighter F s b = Inr (Some r)"
      and locked: "truthy_int (account_locked r)"
  shows "response (authenticate F cmp now ts req s) =
           Some \<lparr>status = 423, body = ErrorBody ''Account is locked. Contact administrator.''\<rparr>
         \<and> actions (authenticate F cmp now ts req s) = [Stmt AuthSelect, Stmt AuthLogInsert]
         \<and> Compare \<notin> set (actions (authenticate F cmp now ts req s))
         \<and> unhandled (authenticate F cmp now ts req s) = []
         \<and> (db (authenticate F cmp now ts req s))\<lparr>auth_logs := auth_logs s\<rparr> = s
         \<and> firefighters (db (authenticate F cmp now ts req s)) = firefighters s
         \<and> select_firefighter F (db (authenticate F cmp now ts req s)) b = Inr (Some r)
         \<and> (\<not> F AuthLogInsert \<and> ''auth_logs'' \<in> set (tables s) \<longrightarrow>
              auth_logs (db (authenticate F cmp now ts req s)) = auth_logs s @
                [\<lparr>al_badge = Some b, al_attempt_time = ts, al_success = 0,
                  al_ip_address = req_ip req, al_user_agent = req_user_agent req,
                  al_failure_reason = Some ''Account locked''\<rparr>])"
proof -
  have run: "authenticate F cmp now ts req s =
      \<lparr>response = Some \<lparr>status = 423,
                         body = ErrorBody ''Account is locked. Contact administrator.''\<rparr>,
       db = logAuthAttempt F ts (Some b) False (req_ip req) (req_user_agent req)
              (Some ''Account locked'') s,
       unhandled = [], actions = [Stmt AuthSelect, Stmt AuthLogInsert]\<rparr>"
    using present_not_falsy [OF badge pin] badge pin row locked
    by (simp add: authenticate_def with_row_def)
  have same: "(logAuthAttempt F ts (Some b) False (req_ip req) (req_user_agent req)
                (Some ''Account locked'') s)\<lparr>auth_logs := auth_logs s\<rparr> = s"
    by (simp add: logAuthAttempt_def)
  show ?thesis
    unfolding run using same row
    by (simp add: logAuthAttempt_logs logAuthAttempt_keeps select_firefighter_logAuthAttempt)
qed

text \<open>The claim at a locked record and its correct PIN.\<close>

theorem locked_account_refused_before_verification_witness:
  "select_firefighter no_faults locked_store ''001'' =
     Inr (Some (example_firefighter\<lparr>account_locked := Some 1, failed_attempts := Some 5\<rparr>))
   \<and> example_compare ''1234'' (pin_hash example_firefighter) = Some True
   \<and> response (authenticate no_faults example_compare ''t1'' ''t0''
                 (example_request (Some ''001'') (Some ''1234'')) locked_store) =
       Some \<lparr>status = 423, body = ErrorBody ''Account is locked. Contact administrator.''\<rparr>
   \<and> firefighters (db (authenticate no_faults example_compare ''t1'' ''t0''
                 (example_request (Some ''001'') (Some ''1234'')) locked_store)) =
       firefighters locked_store
   \<and> auth_logs (db (authenticate no_faults example_compare ''t1'' ''t0''
                 (example_request (Some ''001'') (Some ''1234'')) locked_store)) =
       [\<lparr>al_badge = Some ''001'', al_attempt_time = ''t0'', al_success = 0,
         al_ip_address = Some ''10.0.0.7'', al_user_agent = Some ''curl'',
         al_failure_reason = Some ''Account locked''\<rparr>]
   \<and> toLowerCase ''Account locked'' = ''account locked''"
proof -
  have lower: "toLowerCase ''Account locked'' = ''account locked''"
    by (simp add: toLowerCase_def lower_char_def)
  let ?r = "example_firefighter\<lparr>account_locked := Some 1, failed_attempts := Some 5\<rparr>"
  let ?req = "example_request (Some ''001'') (Some ''1234'')"
  have row: "select_firefighter no_faults locked_store ''001'' = Inr (Some ?r)"
    by (simp add: locked_store_def example_defs select_firefighter_def)
  have locked: "truthy_int (account_locked ?r)"
    by (simp add: truthy_int_def)
  have right: "example_compare ''1234'' (pin_hash example_firefighter) = Some True"
    by (simp add: example_defs)
  have ins: "\<not> no_faults AuthLogInsert \<and> ''auth_logs'' \<in> set (tables locked_store)"
    by (simp add: locked_store_def example_defs)
  have logs: "auth_logs locked_store = []"
    by (simp add: locked_store_def example_defs)
  have req: "req_badge ?req = Some ''001''" "req_pin ?req = Some ''1234''"
    "req_ip ?req = Some ''10.0.0.7''" "req_user_agent ?req = Some ''curl''"
    by (simp_all add: example_request_def)
  from locked_account_refused_before_verification
    [of ?req "''001''" "''1234''" no_faults locked_store ?r example_compare "''t1''" "''t0''",
     OF req(1) _ req(2) _ row locked]
  show ?thesis
    using row right ins logs req(3,4) lower by simp
qed

section \<open>Successful verification\<close>

text \<open>
  Claim C4. Whatever the call, a success response never has a \<^verbatim>\<open>pin_hash\<close> property in
  its body. A call with badge and PIN present, whose lookup finds an unlocked record, whose
  PIN comparison resolves to true and whose UPDATE is executed (no storage fault, the two
  columns exist): the record stored under the badge afterwards has counter 0 and no
  last-failure timestamp, and the call answers 200 with the row as it was read (one property
  for each column of the table), the \<^verbatim>\<open>pin_hash\<close> property removed and every other
  property kept. When the UPDATE fails the call is not answered at all, and nothing is
  stored.
\<close>

theorem successful_verification_resets_and_strips:
  "(\<forall>c obj. response (authenticate F cmp now ts req s) = Some \<lparr>status = c, body = SuccessBody obj\<rparr>
       \<longrightarrow> ''pin_hash'' \<notin> fst ` set obj)
   \<and> (req_badge req = Some b \<and> b \<noteq> [] \<and> req_pin req = Some p \<and> p \<noteq> []
        \<and> select_firefighter F s b = Inr (Some r) \<and> \<not> truthy_int (account_locked r)
        \<and> cmp p (pin_hash r) = Some True
      \<longrightarrow> (\<not> F AuthResetUpdate
             \<and> set [''failed_attempts'', ''last_failed_attempt''] \<subseteq> set (ff_added_columns s)
           \<longrightarrow> response (authenticate F cmp now ts req s) =
                 Some \<lparr>status = 200, body = SuccessBody (safeFirefighter (row_object s r))\<rparr>
             \<and> (\<forall>k v. k \<noteq> ''pin_hash'' \<longrightarrow>
                  ((k, v) \<in> set (safeFirefighter (row_object s r)) \<longleftrightarrow>
                   (k, v) \<in> set (row_object s r)))
             \<and> (\<exists>r'. select_firefighter F (db (authenticate F cmp now ts req s)) b = Inr (Some r')
                  \<and> failed_attempts r' = Some 0 \<and> last_failed_attempt r' = None))
        \<and> (\<not> (\<not> F AuthResetUpdate
                \<and> set [''failed_attempts'', ''last_failed_attempt''] \<subseteq> set (ff_added_columns s))
           \<longrightarrow> response (authenticate F cmp now ts req s) = None
             \<and> db (authenticate F cmp now ts req s) = s))"
proof (intro conjI allI impI)
  fix c obj
  assume "response (authenticate F cmp now ts req s) = Some \<lparr>status = c, body = SuccessBody obj\<rparr>"
  from success_body_is_safe [OF this] show "''pin_hash'' \<notin> fst ` set obj"
    using safeFirefighter_keys by blast
next
  fix k v
  assume "k \<noteq> ''pin_hash''"
  then show "((k, v) \<in> set (safeFirefighter (row_object s r))) = ((k, v) \<in> set (row_object s r))"
    by (rule safeFirefighter_rest)
next
  assume h: "req_badge req = Some b \<and> b \<noteq> [] \<and> req_pin req = Some p \<and> p \<noteq> []
        \<and> select_firefighter F s b = Inr (Some r) \<and> \<not> truthy_int (account_locked r)
        \<and> cmp p (pin_hash r) = Some True"
  then have run: "authenticate F cmp now ts req s = pin_valid F ts req b r s"
    using present_not_falsy [of req b p]
    by (simp add: authenticate_def with_row_def)
  from h have tab: "\<not> F AuthSelect" "''firefighters'' \<in> set (tables s)"
    and found: "find (\<lambda>x. badge x = b) (firefighters s) = Some r"
    using select_found_table by fastforce+
  {
    assume u: "\<not> F AuthResetUpdate
             \<and> set [''failed_attempts'', ''last_failed_attempt''] \<subseteq> set (ff_added_columns s)"
    then have runs: "update_runs F AuthResetUpdate [''failed_attempts'', ''last_failed_attempt''] s"
      using tab by (simp add: update_runs_def)
    show "response (authenticate F cmp now ts req s) =
            Some \<lparr>status = 200, body = SuccessBody (safeFirefighter (row_object s r))\<rparr>"
      unfolding run by (simp add: pin_valid_runs [OF runs])
    let ?f = "\<lambda>x. x\<lparr>failed_attempts := Some 0, last_failed_attempt := None\<rparr>"
    have "select_firefighter F (db (pin_valid F ts req b r s)) b = Inr (Some (?f r))"
      using tab found
      by (simp add: pin_valid_runs [OF runs] select_firefighter_def
          logAuthAttempt_keeps find_badge_update)
    then show "\<exists>r'. select_firefighter F (db (authenticate F cmp now ts req s)) b = Inr (Some r')
                  \<and> failed_attempts r' = Some 0 \<and> last_failed_attempt r' = None"
      unfolding run by simp
  }
  {
    assume u: "\<not> (\<not> F AuthResetUpdate
             \<and> set [''failed_attempts'', ''last_failed_attempt''] \<subseteq> set (ff_added_columns s))"
    then have "\<not> update_runs F AuthResetUpdate [''failed_attempts'', ''last_failed_attempt''] s"
      by (simp add: update_runs_def)
    from pin_valid_dies [OF this, of ts req b r]
    show "response (authenticate F cmp now ts req s) = None"
      and "db (authenticate F cmp now ts req s) = s"
      unfolding run by simp_all
  }
qed

text \<open>
  The claim at the example record (counter 4, correct PIN 1234): the body carries the counter
  as it was read, the stored counter is 0.
\<close>

theorem successful_verification_resets_and_strips_witness:
  "select_firefighter no_faults example_store ''001'' = Inr (Some example_firefighter)
   \<and> failed_attempts example_firefighter = Some 4
   \<and> example_compare ''1234'' (pin_hash example_firefighter) = Some True
   \<and> response (authenticate no_faults example_compare ''t1'' ''t0''
                 (example_request (Some ''001'') (Some ''1234'')) example_store) =
       Some \<lparr>status = 200, body = SuccessBody
         [(''badge'', SqlText ''001''), (''name'', SqlText ''John Smith''),
          (''rank'', SqlText ''Captain''), (''pin_reset_at'', SqlNull),
          (''pin_reset_by'', SqlNull), (''account_locked'', SqlInt 0),
          (''failed_attempts'', SqlInt 4), (''last_failed_attempt'', SqlNull)]\<rparr>
   \<and> (\<exists>r'. select_firefighter no_faults
              (db (authenticate no_faults example_compare ''t1'' ''t0''
                     (example_request (Some ''001'') (Some ''1234'')) example_store)) ''001''
              = Inr (Some r')
            \<and> failed_attempts r' = Some 0 \<and> last_failed_attempt r' = None)"
proof -
  let ?req = "example_request (Some ''001'') (Some ''1234'')"
  have row: "select_firefighter no_faults example_store ''001'' = Inr (Some example_firefighter)"
    by (simp add: example_defs select_firefighter_def)
  have h: "req_badge ?req = Some ''001'' \<and> ''001'' \<noteq> [] \<and> req_pin ?req = Some ''1234''
        \<and> ''1234'' \<noteq> []
        \<and> select_firefighter no_faults example_store ''001'' = Inr (Some example_firefighter)
        \<and> \<not> truthy_int (account_locked example_firefighter)
        \<and> example_compare ''1234'' (pin_hash example_firefighter) = Some True"
    using row by (simp add: example_defs truthy_int_def)
  have u: "\<not> no_faults AuthResetUpdate
             \<and> set [''failed_attempts'', ''last_failed_attempt'']
                 \<subseteq> set (ff_added_columns example_store)"
    by (simp add: example_defs)
  have obj: "safeFirefighter (row_object example_store example_firefighter) =
         [(''badge'', SqlText ''001''), (''name'', SqlText ''John Smith''),
          (''rank'', SqlText ''Captain''), (''pin_reset_at'', SqlNull),
          (''pin_reset_by'', SqlNull), (''account_locked'', SqlInt 0),
          (''failed_attempts'', SqlInt 4), (''last_failed_attempt'', SqlNull)]"
    by (simp add: example_defs row_object_def safeFirefighter_def added_value_def js_value_def
        js_number_exact)
  from successful_verification_resets_and_strips
    [of no_faults example_compare "''t1''" "''t0''" ?req example_store "''001''" "''1234''"
        example_firefighter]
  have "response (authenticate no_faults example_compare ''t1'' ''t0'' ?req example_store) =
          Some \<lparr>status = 200,
                body = SuccessBody (safeFirefighter (row_object example_store example_firefighter))\<rparr>
        \<and> (\<exists>r'. select_firefighter no_faults
              (db (authenticate no_faults example_compare ''t1'' ''t0'' ?req example_store)) ''001''
              = Inr (Some r')
            \<and> failed_attempts r' = Some 0 \<and> last_failed_attempt r' = None)"
    using h u by blast
  then show ?thesis
    using h obj by (simp add: example_firefighter_def)
qed

section \<open>Missing badge or PIN\<close>

text \<open>
  Claim C9, amended. A call whose badge or PIN is absent or empty answers 400 with
  "Badge and PIN are required"; the only statement it sends is the INSERT into the log (no
  lookup, no UPDATE), the store is left as it was except for the log, and when the INSERT is
  executed the log gains one entry with success 0, the badge as it was supplied and the
  reason "Missing badge or PIN". The claim as written names the reason
  "missing credentials", which the code never stores.
\<close>

theorem missing_credentials_rejected_and_logged:
  assumes "falsy_str (req_badge req) \<or> falsy_str (req_pin req)"
  shows "response (authenticate F cmp now ts req s) =
           Some \<lparr>status = 400, body = ErrorBody ''Badge and PIN are required''\<rparr>
       \<and> actions (authenticate F cmp now ts req s) = [Stmt AuthLogInsert]
       \<and> unhandled (authenticate F cmp now ts req s) = []
       \<and> (db (authenticate F cmp now ts req s))\<lparr>auth_logs := auth_logs s\<rparr> = s
       \<and> firefighters (db (authenticate F cmp now ts req s)) = firefighters s
       \<and> (\<not> F AuthLogInsert \<and> ''auth_logs'' \<in> set (tables s) \<longrightarrow>
            auth_logs (db (authenticate F cmp now ts req s)) = auth_logs s @
              [\<lparr>al_badge = req_badge req, al_attempt_time = ts, al_success = 0,
                al_ip_address = req_ip req, al_user_agent = req_user_agent req,
                al_failure_reason = Some ''Missing badge or PIN''\<rparr>])"
  using assms by (simp add: authenticate_def logAuthAttempt_def)

text \<open>
  The claim at a request with an empty PIN, with a lookup that would fail had it been made.
\<close>

theorem missing_credentials_rejected_and_logged_witness:
  "falsy_str (req_pin (example_request (Some ''001'') (Some '''')))
   \<and> response (authenticate select_fails example_compare ''t1'' ''t0''
                 (example_request (Some ''001'') (Some '''')) example_store) =
       Some \<lparr>status = 400, body = ErrorBody ''Badge and PIN are required''\<rparr>
   \<and> auth_logs (db (authenticate select_fails example_compare ''t1'' ''t0''
                 (example_request (Some ''001'') (Some '''')) example_store)) =
       [\<lparr>al_badge = Some ''001'', al_attempt_time = ''t0'', al_success = 0,
         al_ip_address = Some ''10.0.0.7'', al_user_agent = Some ''curl'',
         al_failure_reason = Some ''Missing badge or PIN''\<rparr>]"
proof -
  let ?req = "example_request (Some ''001'') (Some '''')"
  have f: "falsy_str (req_pin ?req)"
    by (simp add: example_request_def falsy_str_def)
  then have "falsy_str (req_badge ?req) \<or> falsy_str (req_pin ?req)" ..
  from missing_credentials_rejected_and_logged
    [of ?req select_fails example_compare "''t1''" "''t0''" example_store, OF this]
  show ?thesis
    using f by (simp add: example_defs select_fails_def)
qed

text \<open>
  The reason the code stores for a request without PIN is not "missing credentials".
\<close>

theorem missing_credentials_reason_counterexample:
  "map al_failure_reason
     (auth_logs (db (authenticate no_faults example_compare ''t1'' ''t0''
                       (example_request (Some ''001'') None) example_store))) =
     [Some ''Missing badge or PIN'']
   \<and> map al_failure_reason
     (auth_logs (db (authenticate no_faults example_compare ''t1'' ''t0''
                       (example_request (Some ''001'') None) example_store))) \<noteq>
     [Some ''missing credentials'']"
  by (simp add: run_defs example_defs)

section \<open>A lookup that fails\<close>




section \<open>A log insert that fails\<close>

lemma swallowed_update:
  "st \<noteq> AuthLogInsert \<Longrightarrow>
     update_firefighter (F(AuthLogInsert := False)) st cols f b s =
     update_firefighter F st cols f b s"
  by (simp add: update_firefighter_def)

lemma swallowed_select:
  "select_firefighter (F(AuthLogInsert := False)) s b = select_firefighter F s b"
  by (simp add: select_firefighter_def)

text \<open>
  Claim C8, amended. When the INSERT into the log fails, the failure is dropped: the call
  gives the response, sends the statements and leaves the store that it would with a
  working INSERT, except that the log stays as it was. The claim as written (the call fails
  with an internal error) does not hold: \<^verbatim>\<open>logAuthAttempt\<close> resolves its promise whatever
  the INSERT did.
\<close>

theorem log_insert_failure_is_swallowed:
  assumes "F AuthLogInsert"
  shows "response (authenticate F cmp now ts req s) =
           response (authenticate (F(AuthLogInsert := False)) cmp now ts req s)
       \<and> unhandled (authenticate F cmp now ts req s) =
           unhandled (authenticate (F(AuthLogInsert := False)) cmp now ts req s)
       \<and> actions (authenticate F cmp now ts req s) =
           actions (authenticate (F(AuthLogInsert := False)) cmp now ts req s)
       \<and> auth_logs (db (authenticate F cmp now ts req s)) = auth_logs s
       \<and> db (authenticate F cmp now ts req s) =
           (db (authenticate (F(AuthLogInsert := False)) cmp now ts req s))\<lparr>auth_logs := auth_logs s\<rparr>"
proof -
  let ?F' = "F(AuthLogInsert := False)"
  define Q where "Q x y \<longleftrightarrow>
      response x = response y \<and> unhandled x = unhandled y \<and> actions x = actions y
      \<and> auth_logs (db x) = auth_logs s \<and> db x = (db y)\<lparr>auth_logs := auth_logs s\<rparr>"
    for x y :: auth_result
  have l: "Q \<lparr>response = R, db = logAuthAttempt F ts b ok ip ua why s1, unhandled = U, actions = A\<rparr>
             \<lparr>response = R, db = logAuthAttempt ?F' ts b ok ip ua why s1, unhandled = U,
              actions = A\<rparr>"
    if "auth_logs s1 = auth_logs s" for R b ok ip ua why s1 U A
  proof -
    have "s1\<lparr>auth_logs := auth_logs s\<rparr> = s1"
      using that [symmetric] by simp
    then show ?thesis
      using assms that by (simp add: Q_def logAuthAttempt_def)
  qed
  have d: "Q \<lparr>response = R, db = s, unhandled = U, actions = A\<rparr>
             \<lparr>response = R, db = s, unhandled = U, actions = A\<rparr>" for R U A
    by (simp add: Q_def)
  have v: "Q (pin_valid F ts req b r s) (pin_valid ?F' ts req b r s)" for b r
  proof (cases "update_firefighter F AuthResetUpdate [''failed_attempts'', ''last_failed_attempt'']
                  (\<lambda>r. r\<lparr>failed_attempts := Some 0, last_failed_attempt := None\<rparr>) b s")
    case (Inl e)
    then show ?thesis by (simp add: pin_valid_def swallowed_update d)
  next
    case (Inr s1)
    from update_firefighter_keeps(2) [OF this] Inr show ?thesis
      by (simp add: pin_valid_def swallowed_update l)
  qed
  have i: "Q (pin_invalid F now ts req b r s) (pin_invalid ?F' now ts req b r s)" for b r
  proof -
    let ?n = "js_number (or_zero (map_option js_number (failed_attempts r)) + 1)"
    let ?f = "\<lambda>x. x\<lparr>failed_attempts := Some ?n, last_failed_attempt := Some now,
                     account_locked := Some (if 5 \<le> ?n then 1 else 0)\<rparr>"
    show ?thesis
    proof (cases "update_firefighter F AuthFailedUpdate
                    [''failed_attempts'', ''last_failed_attempt'', ''account_locked''] ?f b s")
      case (Inl e)
      then show ?thesis by (simp add: pin_invalid_def Let_def swallowed_update d)
    next
      case (Inr s1)
      from update_firefighter_keeps(2) [OF this] Inr show ?thesis
        by (simp add: pin_invalid_def Let_def swallowed_update l)
    qed
  qed
  have "Q (authenticate F cmp now ts req s) (authenticate ?F' cmp now ts req s)"
    by (simp add: handler_defs swallowed_select l d v i split: sum.splits option.splits)
  then show ?thesis
    by (simp add: Q_def)
qed

text \<open>
  The amended claim at an unknown badge: 401 as usual, nothing logged.
\<close>

theorem log_insert_failure_is_swallowed_witness:
  "log_insert_fails AuthLogInsert
   \<and> response (authenticate log_insert_fails example_compare ''t1'' ''t0''
                 (example_request (Some ''999'') (Some ''1234'')) example_store) =
       Some \<lparr>status = 401, body = ErrorBody ''Invalid badge number''\<rparr>
   \<and> auth_logs (db (authenticate log_insert_fails example_compare ''t1'' ''t0''
                 (example_request (Some ''999'') (Some ''1234'')) example_store)) = []"
proof -
  have f: "log_insert_fails AuthLogInsert"
    by (simp add: log_insert_fails_def)
  have r: "response (authenticate (log_insert_fails(AuthLogInsert := False)) example_compare
                 ''t1'' ''t0'' (example_request (Some ''999'') (Some ''1234'')) example_store) =
       Some \<lparr>status = 401, body = ErrorBody ''Invalid badge number''\<rparr>"
    by (simp add: run_defs example_defs log_insert_fails_def)
  have l: "auth_logs example_store = []"
    by (simp add: example_store_def)
  from log_insert_failure_is_swallowed
    [of log_insert_fails example_compare "''t1''" "''t0''"
        "example_request (Some ''999'') (Some ''1234'')" example_store, OF f]
  show ?thesis
    using f r l by simp
qed

text \<open>
  A success response (200) for a call whose log entry was dropped.
\<close>

theorem dropped_log_entry_counterexample:
  "map_option status
     (response (authenticate log_insert_fails example_compare ''t1'' ''t0''
                  (example_request (Some ''001'') (Some ''1234'')) example_store)) = Some 200
   \<and> auth_logs (db (authenticate log_insert_fails example_compare ''t1'' ''t0''
                       (example_request (Some ''001'') (Some ''1234'')) example_store)) =
     auth_logs example_store"
  by code_simp

section \<open>One log entry for each call\<close>

text \<open>
  Claim C2, amended. A call of any of the five kinds (missing input, unknown badge, locked
  account, right PIN, wrong PIN) all of whose statements the database executes is answered,
  sends exactly one INSERT into the log, and leaves the log as it was before with exactly one
  entry appended: the badge as supplied, success 1 for the right PIN and 0 otherwise, and the
  reason of the refusal. No call whatever changes or removes an entry: the old log is a
  prefix of the new one, which is at most one entry longer. For N such calls served one
  after the other, for any badges, the log ends N entries longer, one entry for each call in
  order. The claim as written also covers the calls whose INSERT into the log fails, and
  these are answered as usual and add no entry.
\<close>

theorem one_log_entry_per_call:
  "(executed F cmp req s
      \<longrightarrow> auth_logs (db (authenticate F cmp now ts req s)) = auth_logs s @
            [\<lparr>al_badge = req_badge req, al_attempt_time = ts,
              al_success = (if case_of_call F cmp req s = PinRight then 1 else 0),
              al_ip_address = req_ip req, al_user_agent = req_user_agent req,
              al_failure_reason =
                (case case_of_call F cmp req s of
                   Missing \<Rightarrow> Some ''Missing badge or PIN''
                 | Unknown \<Rightarrow> Some ''Badge not found''
                 | Locked \<Rightarrow> Some ''Account locked''
                 | PinWrong \<Rightarrow> Some ''Invalid PIN''
                 | _ \<Rightarrow> None)\<rparr>]
        \<and> length (filter (\<lambda>a. a = Stmt AuthLogInsert)
                    (actions (authenticate F cmp now ts req s))) = 1
        \<and> response (authenticate F cmp now ts req s) \<noteq> None)
   \<and> (\<exists>new. auth_logs (db (authenticate F cmp now ts req s)) = auth_logs s @ new
            \<and> length new \<le> 1)
   \<and> (all_executed cmp cs s
      \<longrightarrow> (\<exists>new. auth_logs (store_after s (serve cmp cs s)) = auth_logs s @ new
               \<and> length new = length cs
               \<and> map al_badge new = map (\<lambda>c. req_badge (call_request c)) cs))"
  using authenticate_executed [of F cmp req s now ts]
    authenticate_log_grows [of F cmp now ts req s]
    serve_logs [of cmp cs s]
  by blast

text \<open>
  Six calls on a roster of three: the right PIN (200), a wrong PIN at counter 4 (423 by
  lockout), a locked account (423), an unknown badge (401), a missing PIN (400) and a wrong
  PIN at counter 0 (401). Six entries, the first the only success.
\<close>

lemma six_calls_evaluated:
  "all_executed example_compare six_calls roster_store
   \<and> map (map_option status \<circ> response) (serve example_compare six_calls roster_store) =
       [Some 200, Some 423, Some 423, Some 401, Some 400, Some 401]
   \<and> map al_success (auth_logs (store_after roster_store
                (serve example_compare six_calls roster_store))) = [1, 0, 0, 0, 0, 0]
   \<and> length six_calls = 6
   \<and> auth_logs roster_store = []"
  by code_simp

theorem one_log_entry_per_call_witness:
  "all_executed example_compare six_calls roster_store
   \<and> map (map_option status \<circ> response) (serve example_compare six_calls roster_store) =
       [Some 200, Some 423, Some 423, Some 401, Some 400, Some 401]
   \<and> map al_success (auth_logs (store_after roster_store
                (serve example_compare six_calls roster_store))) = [1, 0, 0, 0, 0, 0]
   \<and> length six_calls = 6
   \<and> auth_logs roster_store = []
   \<and> length (auth_logs (store_after roster_store
                (serve example_compare six_calls roster_store))) = 6"
proof -
  let ?rs = "serve example_compare six_calls roster_store"
  have all: "all_executed example_compare six_calls roster_store"
    using six_calls_evaluated by blast
  from one_log_entry_per_call
    [of no_faults example_compare "example_request (Some ''001'') (Some ''0000'')" roster_store
        "''t1''" "''t0''" six_calls]
  have "\<exists>new. auth_logs (store_after roster_store ?rs) = auth_logs roster_store @ new
               \<and> length new = length six_calls"
    using all by blast
  then have "length (auth_logs (store_after roster_store ?rs)) = 6"
    using six_calls_evaluated by auto
  then show ?thesis
    using six_calls_evaluated by blast
qed

text \<open>
  A call on a locked account whose INSERT into the log fails: answered 423, no entry.
\<close>

theorem answered_call_without_entry_counterexample:
  "response (authenticate log_insert_fails example_compare ''t1'' ''t0''
               (example_request (Some ''001'') (Some ''1234'')) locked_store) =
     Some \<lparr>status = 423, body = ErrorBody ''Account is locked. Contact administrator.''\<rparr>
   \<and> auth_logs locked_store = []
   \<and> auth_logs (db (authenticate log_insert_fails example_compare ''t1'' ''t0''
                       (example_request (Some ''001'') (Some ''1234'')) locked_store)) = []"
  by code_simp

end
